theory Spec2Isabelle
  imports Main "HOL-Library.AList"
begin

section \<open>JavaScript values\<close>

text \<open>
  The component is a Lightning web component written in JavaScript. Its data are
  JavaScript values: grid cells, draft values and configuration fields may be
  \<^verbatim>\<open>undefined\<close>, \<^verbatim>\<open>null\<close>, a number, \<^verbatim>\<open>NaN\<close> or a string. Numbers are
  modelled as mathematical integers (license quantities, year counts and limits are
  whole numbers well inside the range where JavaScript prints them in plain decimal
  notation and adds them exactly); \<^verbatim>\<open>NaN\<close> is a value of its own.
\<close>

datatype jsval = JUndefined | JNull | JNum int | JNaN | JStr string

text \<open>A number as \<^verbatim>\<open>parseInt\<close> returns it: \<open>None\<close> is \<^verbatim>\<open>NaN\<close>.\<close>

type_synonym jsnum = "int option"

fun numVal :: "jsnum \<Rightarrow> jsval" where
  "numVal None = JNaN"
| "numVal (Some n) = JNum n"

text \<open>Truthiness, as \<^verbatim>\<open>if (x)\<close>, \<^verbatim>\<open>!x\<close>, \<^verbatim>\<open>x ? a : b\<close> and \<^verbatim>\<open>x || y\<close> test it.\<close>

fun truthy :: "jsval \<Rightarrow> bool" where
  "truthy JUndefined = False"
| "truthy JNull = False"
| "truthy (JNum n) = (n \<noteq> 0)"
| "truthy JNaN = False"
| "truthy (JStr s) = (s \<noteq> [])"

definition js_or :: "jsval \<Rightarrow> jsval \<Rightarrow> jsval" where
  "js_or a b = (if truthy a then a else b)"

text \<open>Strict equality \<^verbatim>\<open>===\<close>: \<^verbatim>\<open>NaN\<close> equals nothing, not even itself.\<close>

definition strictEq :: "jsval \<Rightarrow> jsval \<Rightarrow> bool" where
  "strictEq a b = (a = b \<and> a \<noteq> JNaN)"

subsection \<open>Decimal notation\<close>

definition digitChars :: string where
  "digitChars = ''0123456789''"

definition digitChar :: "nat \<Rightarrow> char" where
  "digitChar d = digitChars ! d"

definition isDigit :: "char \<Rightarrow> bool" where
  "isDigit c = (c \<in> set digitChars)"

definition digitVal :: "char \<Rightarrow> nat" where
  "digitVal c = length (takeWhile (\<lambda>d. d \<noteq> c) digitChars)"

text \<open>The decimal digits of a number that is not negative.\<close>

function showDigits :: "int \<Rightarrow> string" where
  "showDigits n =
     (if n < 10 then [digitChar (nat n)]
      else showDigits (n div 10) @ [digitChar (nat (n mod 10))])"
  by pat_completeness auto
termination
  by (relation "measure nat") auto

declare showDigits.simps [simp del]

definition showInt :: "int \<Rightarrow> string" where
  "showInt i = (if i < 0 then CHR ''-'' # showDigits (- i) else showDigits i)"

definition showNat :: "nat \<Rightarrow> string" where
  "showNat n = showDigits (int n)"

text \<open>\<^verbatim>\<open>String(v)\<close>, which a template literal \<^verbatim>\<open>`${v}`\<close> and \<^verbatim>\<open>parseInt\<close> apply.\<close>

fun toString :: "jsval \<Rightarrow> string" where
  "toString JUndefined = ''undefined''"
| "toString JNull = ''null''"
| "toString (JNum n) = showInt n"
| "toString JNaN = ''NaN''"
| "toString (JStr s) = s"

subsection \<open>parseInt\<close>

text \<open>
  \<^verbatim>\<open>parseInt(v, 10)\<close>: the argument is converted to a string, leading white space
  is dropped, one sign is read, and the longest run of decimal digits that follows is
  the result; with no digit there the result is \<^verbatim>\<open>NaN\<close>. The white space modelled
  is the ASCII one (tab, line feed, vertical tab, form feed, carriage return, space).
\<close>

definition isWhiteSpace :: "char \<Rightarrow> bool" where
  "isWhiteSpace c = (c \<in> set [CHR 0x09, CHR 0x0A, CHR 0x0B, CHR 0x0C, CHR 0x0D, CHR 0x20])"

definition parseDigits :: "string \<Rightarrow> int" where
  "parseDigits ds = foldl (\<lambda>a c. 10 * a + int (digitVal c)) 0 ds"

definition parseIntStr :: "string \<Rightarrow> jsnum" where
  "parseIntStr s =
     (let t = dropWhile isWhiteSpace s;
          neg = (case t of [] \<Rightarrow> False | c # _ \<Rightarrow> c = CHR ''-'');
          u = (case t of [] \<Rightarrow> [] | c # r \<Rightarrow> if c = CHR ''-'' \<or> c = CHR ''+'' then r else t);
          ds = takeWhile isDigit u
      in if ds = [] then None
         else Some (if neg then - parseDigits ds else parseDigits ds))"

definition parseInt :: "jsval \<Rightarrow> jsnum" where
  "parseInt v = parseIntStr (toString v)"


subsection \<open>String helpers\<close>

text \<open>\<^verbatim>\<open>s.padStart(2, '0')\<close>, \<^verbatim>\<open>s.startsWith(p)\<close>, \<^verbatim>\<open>s.replace(p, r)\<close> (the first
  occurrence only, as a string pattern replaces), \<^verbatim>\<open>s.split('T')[0]\<close> and
  \<^verbatim>\<open>xs.join('\n')\<close>.\<close>

definition padStart2 :: "string \<Rightarrow> string" where
  "padStart2 s = replicate (2 - length s) CHR ''0'' @ s"

definition startsWith :: "string \<Rightarrow> string \<Rightarrow> bool" where
  "startsWith p s = (take (length p) s = p)"

fun replaceFirst :: "string \<Rightarrow> string \<Rightarrow> string \<Rightarrow> string" where
  "replaceFirst p r [] = (if p = [] then r else [])"
| "replaceFirst p r (c # cs) =
     (if startsWith p (c # cs) then r @ drop (length p) (c # cs)
      else c # replaceFirst p r cs)"

definition beforeT :: "string \<Rightarrow> string" where
  "beforeT s = takeWhile (\<lambda>c. c \<noteq> CHR ''T'') s"

fun joinLines :: "string list \<Rightarrow> string" where
  "joinLines [] = []"
| "joinLines [x] = x"
| "joinLines (x # y # ys) = x @ [CHR 0x0A] @ joinLines (y # ys)"

subsection \<open>Objects\<close>

text \<open>
  A grid row and a draft entry are plain objects. An object is the list of its
  properties in insertion order, with distinct keys; reading a property that is not
  there gives \<^verbatim>\<open>undefined\<close>, an assignment replaces the property in place or
  appends it. Values are immutable here, so the shallow copies the source takes
  (\<^verbatim>\<open>{ ...row }\<close>) are the object itself.
\<close>

type_synonym jsobject = "(string \<times> jsval) list"

definition getField :: "jsobject \<Rightarrow> string \<Rightarrow> jsval" where
  "getField obj k = (case map_of obj k of None \<Rightarrow> JUndefined | Some v \<Rightarrow> v)"

definition setField :: "string \<Rightarrow> jsval \<Rightarrow> jsobject \<Rightarrow> jsobject" where
  "setField k v obj = AList.update k v obj"

text \<open>\<^verbatim>\<open>{ ...a, ...b }\<close>\<close>

definition spread :: "jsobject \<Rightarrow> jsobject \<Rightarrow> jsobject" where
  "spread a b = foldl (\<lambda>obj kv. setField (fst kv) (snd kv) obj) a b"

text \<open>\<^verbatim>\<open>Object.keys(obj)\<close>\<close>

definition objectKeys :: "jsobject \<Rightarrow> string list" where
  "objectKeys obj = map fst obj"

text \<open>
  \<^verbatim>\<open>a + b\<close>: a string on either side makes it a concatenation, otherwise the
  operands are added as numbers. \<open>toNumber\<close> is the conversion of an operand that
  is not a string (\<^verbatim>\<open>null\<close> is 0, \<^verbatim>\<open>undefined\<close> is \<^verbatim>\<open>NaN\<close>); it is applied to
  such operands only.
\<close>

fun toNumber :: "jsval \<Rightarrow> jsnum" where
  "toNumber JUndefined = None"
| "toNumber JNull = Some 0"
| "toNumber (JNum n) = Some n"
| "toNumber JNaN = None"
| "toNumber (JStr s) = None"

fun isStr :: "jsval \<Rightarrow> bool" where
  "isStr (JStr s) = True"
| "isStr v = False"

fun js_add :: "jsval \<Rightarrow> jsval \<Rightarrow> jsval" where
  "js_add (JStr s) b = JStr (s @ toString b)"
| "js_add a (JStr t) = JStr (toString a @ t)"
| "js_add a b =
     (case (toNumber a, toNumber b) of
        (Some x, Some y) \<Rightarrow> JNum (x + y)
      | _ \<Rightarrow> JNaN)"

text \<open>\<^verbatim>\<open>Number.isSafeInteger\<close>: the integers that JavaScript numbers hold exactly, so
  that sums within this range are exact and are printed in plain decimal notation.\<close>

definition safeInteger :: "int \<Rightarrow> bool" where
  "safeInteger n = (\<bar>n\<bar> < 2 ^ 53)"

section \<open>The host\<close>

text \<open>
  What the component takes from the JavaScript runtime and cannot be read off its
  source is a parameter of the model: the \<^verbatim>\<open>Date\<close> object (how a string is parsed
  is left to the implementation for all but the ISO forms, and the calendar fields it
  reads are those of the local time zone) and the comparison \<^verbatim>\<open>s > n\<close> of a string
  with a number (the string is converted by the runtime's numeric grammar). \<open>'d\<close> is
  the runtime's representation of a valid \<^verbatim>\<open>Date\<close>; \<open>None\<close> is the invalid one.
\<close>

record 'd js_host =
  newDate :: "jsval \<Rightarrow> 'd option"
  getFullYear :: "'d \<Rightarrow> int"
  getMonth :: "'d \<Rightarrow> int"
  getDate :: "'d \<Rightarrow> int"
  setFullYear :: "'d \<Rightarrow> int \<Rightarrow> 'd option"
  toISOString :: "'d \<Rightarrow> string"
  strGreater :: "string \<Rightarrow> int \<Rightarrow> bool"

datatype js_exception = TypeError | RangeError

section \<open>Data model\<close>

text \<open>The configuration record the server returns (\<^verbatim>\<open>configData\<close>).\<close>

record config =
  F5_Contract_Length__c :: jsval
  F5_LMS_Start_Date__c :: jsval
  F5_Initial_Renewal_date__c :: jsval
  F5_Maximum_License__c :: jsval

text \<open>A license record as the server returns it.\<close>

record license_record =
  Grade_Level__c :: jsval
  Year__c :: jsval
  License_Quantity__c :: jsval

text \<open>An entry of \<^verbatim>\<open>pendingChanges\<close>: \<^verbatim>\<open>{ grade, year, quantity }\<close>.\<close>

record change =
  grade :: jsval
  year :: string
  quantity :: jsval

text \<open>A column descriptor; of its attributes the label, the field name, the type
  and the editable flag are kept (the others are constants of the presentation).\<close>

record column =
  label :: jsval
  fieldName :: string
  colType :: string
  editable :: bool

record validation =
  isValid :: bool
  errors :: "string list"

text \<open>A \<^verbatim>\<open>ShowToastEvent\<close> as \<^verbatim>\<open>showToast(title, message, variant)\<close> dispatches it.\<close>

record toast =
  title :: string
  message :: string
  variant :: string

text \<open>A value thrown by a server call: \<^verbatim>\<open>error.body.message\<close> and
  \<^verbatim>\<open>error.message\<close>, each \<open>None\<close> where the property (or \<^verbatim>\<open>error.body\<close>) is
  missing. The thrown value itself may be falsy (\<open>None\<close> below).\<close>

record js_error =
  errorBodyMessage :: "string option"
  errorMessage :: "string option"

datatype outcome = Fulfilled | Rejected "js_error option"

text \<open>
  The component's fields, and what it has done to its collaborators: the toasts
  dispatched, the change lists handed to \<^verbatim>\<open>saveLicenseData\<close>, the number of
  \<^verbatim>\<open>refreshApex\<close> calls, and the \<^verbatim>\<open>draftValues\<close> of the
  \<^verbatim>\<open>lightning-datatable\<close> element (\<open>None\<close>: the element is not in the template).
\<close>

record state =
  gridData :: "jsobject list"
  isLoading :: bool
  hasChanges :: bool
  pendingChanges :: "(string \<times> change) list"
  draftValues :: "jsobject list"
  configData :: "config option"
  originalLicenseData :: "license_record list"
  toasts :: "toast list"
  saveCalls :: "change list list"
  refreshCalls :: nat
  datatableDraftValues :: "jsobject list option"

definition gradeLabels :: "string list" where
  "gradeLabels = [''K'', ''1'', ''2'', ''3'', ''4'', ''5'', ''6'', ''7'', ''8'']"

definition showToast :: "string \<Rightarrow> string \<Rightarrow> string \<Rightarrow> state \<Rightarrow> state" where
  "showToast t m v s = s\<lparr>toasts := toasts s @ [\<lparr>title = t, message = m, variant = v\<rparr>]\<rparr>"

text \<open>\<^verbatim>\<open>`year${year}`\<close> and the loop \<^verbatim>\<open>for (let year = 1; year <= maxYears; year++)\<close>,
  which does not run when \<^verbatim>\<open>maxYears\<close> is \<^verbatim>\<open>NaN\<close>.\<close>

definition yearKey :: "int \<Rightarrow> string" where
  "yearKey y = ''year'' @ showInt y"

fun yearsUpTo :: "jsnum \<Rightarrow> int list" where
  "yearsUpTo None = []"
| "yearsUpTo (Some n) = [1..n]"

text \<open>\<^verbatim>\<open>row.id !== 'totals-row'\<close>\<close>

definition notTotalsRow :: "jsobject \<Rightarrow> bool" where
  "notTotalsRow row = (\<not> strictEq (getField row ''id'') (JStr ''totals-row''))"

text \<open>\<^verbatim>\<open>rows.find(row => row.id === draft.id)\<close>\<close>

definition findById :: "jsobject list \<Rightarrow> jsval \<Rightarrow> jsobject option" where
  "findById rows i = List.find (\<lambda>row. strictEq (getField row ''id'') i) rows"

text \<open>The \<^verbatim>\<open>Map\<close> from \<^verbatim>\<open>`${record.Grade_Level__c}_${record.Year__c}`\<close> to the
  record's quantity that every revision of \<^verbatim>\<open>processLicenseData\<close> builds first.\<close>

definition recordKey :: "license_record \<Rightarrow> string" where
  "recordKey r = toString (Grade_Level__c r) @ ''_'' @ toString (Year__c r)"

definition buildDataMap :: "license_record list \<Rightarrow> jsobject" where
  "buildDataMap data = foldl (\<lambda>m r. setField (recordKey r) (License_Quantity__c r) m) [] data"

text \<open>The coercion of a draft value for \<^verbatim>\<open>pendingChanges\<close>, the same in every
  revision of \<^verbatim>\<open>handleDraftValueChange\<close>.\<close>

definition pendingQuantity :: "jsval \<Rightarrow> jsval" where
  "pendingQuantity v =
     (if v \<noteq> JNull \<and> v \<noteq> JUndefined \<and> v \<noteq> JStr []
      then (case parseInt v of
              None \<Rightarrow> JNull
            | Some n \<Rightarrow> if n < 0 then JNull else JNum n)
      else JNull)"

section \<open>The component of src/unnamed/part_001\<close>

text \<open>
  The repository holds the component in several files. The definitions that embed
  \<^verbatim>\<open>src/unnamed/part_001\<close> end in \<open>_p1\<close>, those of \<^verbatim>\<open>src/unnamed/part_000\<close> in
  \<open>_p0\<close>, and those of the second document (lines 181 to 513) of
  \<^verbatim>\<open>src/force-app/main/default/lwc/licenseQuantityGrid/licenseQuantityGrid.js\<close> in
  \<open>_lqg\<close>.
\<close>

subsection \<open>Columns and date labels\<close>

text \<open>\<^verbatim>\<open>cfg.F5_Contract_Length__c ? parseInt(cfg.F5_Contract_Length__c, 10) : 7\<close>\<close>

definition contractLength_p1 :: "config \<Rightarrow> jsnum" where
  "contractLength_p1 cfg =
     (if truthy (F5_Contract_Length__c cfg) then parseInt (F5_Contract_Length__c cfg)
      else Some 7)"

text \<open>
  \<^verbatim>\<open>americanDateFormat\<close>: a truthy input that is not a string is used as the date
  itself, and \<^verbatim>\<open>getTime\<close> on it raises a TypeError that the \<^verbatim>\<open>catch\<close> turns into
  \<^verbatim>\<open>null\<close> (the callers pass strings or \<^verbatim>\<open>null\<close>).
\<close>

definition americanDateFormat_p1 :: "'d js_host \<Rightarrow> jsval \<Rightarrow> jsval" where
  "americanDateFormat_p1 h inputDate =
     (if \<not> truthy inputDate then JNull
      else if isStr inputDate then
        (case newDate h inputDate of
           None \<Rightarrow> JNull
         | Some d \<Rightarrow>
             JStr (padStart2 (showInt (getMonth h d + 1)) @ ''/'' @
                   padStart2 (showInt (getDate h d)) @ ''/'' @
                   showInt (getFullYear h d)))
      else JNull)"

text \<open>
  \<^verbatim>\<open>addYearsToDateString\<close>: on an invalid date \<^verbatim>\<open>toISOString\<close> raises a RangeError,
  which the \<^verbatim>\<open>catch\<close> turns into \<^verbatim>\<open>null\<close>.
\<close>

definition addYearsToDateString_p1 :: "'d js_host \<Rightarrow> jsval \<Rightarrow> int \<Rightarrow> jsval" where
  "addYearsToDateString_p1 h dateString yearsToAdd =
     (if \<not> truthy dateString then JNull
      else (case newDate h dateString of
              None \<Rightarrow> JNull
            | Some d \<Rightarrow>
                (case setFullYear h d (getFullYear h d + yearsToAdd) of
                   None \<Rightarrow> JNull
                 | Some d' \<Rightarrow> JStr (beforeT (toISOString h d')))))"

definition zeroColumn :: column where
  "zeroColumn = \<lparr>label = JStr ''Grade'', fieldName = ''grade'', colType = ''text'', editable = False\<rparr>"

definition dateLabel_p1 :: "'d js_host \<Rightarrow> config \<Rightarrow> int \<Rightarrow> jsval" where
  "dateLabel_p1 h cfg i =
     (let currentDate = F5_LMS_Start_Date__c cfg;
          nextDate = F5_Initial_Renewal_date__c cfg
      in if i = 1 then
           (if truthy currentDate then americanDateFormat_p1 h currentDate else JStr ''Year 1'')
         else
           (if truthy nextDate
            then americanDateFormat_p1 h (addYearsToDateString_p1 h nextDate (i - 2))
            else JStr (''Year '' @ showInt i)))"

definition columns_p1 :: "'d js_host \<Rightarrow> config option \<Rightarrow> column list" where
  "columns_p1 h cfgOpt =
     (case cfgOpt of
        None \<Rightarrow> []
      | Some cfg \<Rightarrow>
          zeroColumn #
          map (\<lambda>i. \<lparr>label = dateLabel_p1 h cfg i, fieldName = yearKey i,
                     colType = ''number'', editable = True\<rparr>)
              (yearsUpTo (contractLength_p1 cfg)))"

definition getYearLabel_p1 :: "'d js_host \<Rightarrow> config option \<Rightarrow> int \<Rightarrow> jsval" where
  "getYearLabel_p1 h cfgOpt yearNum =
     (let columns = columns_p1 h cfgOpt
      in if 0 \<le> yearNum \<and> yearNum < int (length columns)
         then label (columns ! nat yearNum)
         else JStr (''Year '' @ showInt yearNum))"

subsection \<open>Totals\<close>

text \<open>The body of the two \<^verbatim>\<open>reduce\<close> callbacks (in \<^verbatim>\<open>calculateTotals\<close> and in
  \<^verbatim>\<open>validateTotals\<close>): what one cell adds to the sum.\<close>

definition cellNumber_p1 :: "jsval \<Rightarrow> int" where
  "cellNumber_p1 v =
     (let numValue = (if v = JNull \<or> v = JUndefined \<or> v = JStr [] then Some 0 else parseInt v)
      in case numValue of None \<Rightarrow> 0 | Some n \<Rightarrow> n)"

definition yearTotal_p1 :: "jsobject list \<Rightarrow> string \<Rightarrow> int" where
  "yearTotal_p1 dataRows k = foldl (\<lambda>sum row. sum + cellNumber_p1 (getField row k)) 0 dataRows"

definition totalsBase_p1 :: jsobject where
  "totalsBase_p1 =
     [(''id'', JStr ''totals-row''), (''grade'', JStr ''Total''),
      (''rowClass'', JStr ''total-row slds-text-heading_small slds-text-color_success''),
      (''gradeClass'', JStr ''slds-cell-edit slds-cell-edit_no-button'')]"

definition calculateTotals_p1 :: "jsobject list \<Rightarrow> jsnum \<Rightarrow> jsobject" where
  "calculateTotals_p1 dataRows maxYears =
     foldl (\<lambda>totals y. setField (yearKey y) (JNum (yearTotal_p1 dataRows (yearKey y))) totals)
       totalsBase_p1 (yearsUpTo maxYears)"

subsection \<open>Building the grid\<close>

definition mainRow_p1 :: "jsobject \<Rightarrow> jsnum \<Rightarrow> nat \<times> string \<Rightarrow> jsobject" where
  "mainRow_p1 dataMap maxYears ig =
     (let index = fst ig; g = snd ig
      in foldl (\<lambda>row y.
            let v = getField dataMap (g @ ''_'' @ showInt y)
            in setField (yearKey y)
                 (if v = JNull \<or> v = JUndefined then JNull else numVal (parseInt v)) row)
          [(''id'', JStr (''row-'' @ showNat index)), (''grade'', JStr g),
           (''rowClass'', JStr []), (''gradeClass'', JStr ''slds-cell-edit'')]
          (yearsUpTo maxYears))"

definition buildGrid_p1 :: "config \<Rightarrow> license_record list \<Rightarrow> jsobject list" where
  "buildGrid_p1 cfg data =
     (let dataMap = buildDataMap data;
          maxYears = contractLength_p1 cfg;
          mainData = map (mainRow_p1 dataMap maxYears) (enumerate 0 gradeLabels);
          totalsRow = calculateTotals_p1 mainData maxYears
      in mainData @ [totalsRow])"

definition processLicenseData_p1 :: "license_record list \<Rightarrow> state \<Rightarrow> state" where
  "processLicenseData_p1 data s =
     (case configData s of
        None \<Rightarrow> s
      | Some cfg \<Rightarrow> s\<lparr>gridData := buildGrid_p1 cfg data\<rparr>)"

subsection \<open>Validation\<close>

definition exceeds :: "int \<Rightarrow> jsnum \<Rightarrow> bool" where
  "exceeds tot maxLicense = (case maxLicense of None \<Rightarrow> False | Some m \<Rightarrow> m < tot)"

definition limitMessage :: "jsval \<Rightarrow> jsval \<Rightarrow> jsval \<Rightarrow> string" where
  "limitMessage yearLabel tot maxLicense =
     toString yearLabel @ '': Total ('' @ toString tot @
     '') exceeds maximum license limit ('' @ toString maxLicense @ '')''"

definition validateTotals_p1 :: "'d js_host \<Rightarrow> config option \<Rightarrow> jsobject list \<Rightarrow> validation" where
  "validateTotals_p1 h cfgOpt dataRows =
     (case cfgOpt of
        None \<Rightarrow> \<lparr>isValid = True, errors = []\<rparr>
      | Some cfg \<Rightarrow>
          if \<not> truthy (F5_Maximum_License__c cfg) then \<lparr>isValid = True, errors = []\<rparr>
          else
            let maxLicense = parseInt (F5_Maximum_License__c cfg);
                maxYears = contractLength_p1 cfg;
                errs = concat (map (\<lambda>y.
                   let tot = yearTotal_p1 dataRows (yearKey y)
                   in if exceeds tot maxLicense
                      then [limitMessage (getYearLabel_p1 h cfgOpt y) (JNum tot) (numVal maxLicense)]
                      else []) (yearsUpTo maxYears))
            in \<lparr>isValid = (length errs = 0), errors = errs\<rparr>)"

subsection \<open>Merging an edit batch\<close>

text \<open>Lines 241 to 248: the value a draft field leaves in the grid row.\<close>

definition gridQuantity_p1 :: "jsval \<Rightarrow> jsval" where
  "gridQuantity_p1 v =
     (if v = JNull \<or> v = JUndefined \<or> v = JStr [] then JNull
      else (case parseInt v of
              None \<Rightarrow> JNull
            | Some intValue \<Rightarrow> JNum (max 0 intValue)))"

text \<open>Lines 234 to 254: one grid row under the batch.\<close>

definition applyDrafts_p1 :: "jsobject list \<Rightarrow> jsobject \<Rightarrow> jsobject" where
  "applyDrafts_p1 filteredDraftValues row =
     (case findById filteredDraftValues (getField row ''id'') of
        None \<Rightarrow> row
      | Some draft \<Rightarrow>
          foldl (\<lambda>updatedRow k.
                   if k \<noteq> ''id'' then setField k (gridQuantity_p1 (getField draft k)) updatedRow
                   else updatedRow)
                row (objectKeys draft))"

text \<open>Lines 274 to 295: the pending changes one draft entry adds. The guard on the
  field name is a parameter, since the files differ in it.\<close>

definition recordDraft :: "(string \<Rightarrow> bool) \<Rightarrow> jsval \<Rightarrow> jsobject \<Rightarrow> (string \<times> change) list \<Rightarrow> (string \<times> change) list" where
  "recordDraft accepts g draft pending =
     foldl (\<lambda>m field.
              if accepts field then
                (let y = replaceFirst ''year'' [] field;
                     k = toString g @ ''_'' @ y
                 in AList.update k
                      \<lparr>grade = g, year = y, quantity = pendingQuantity (getField draft field)\<rparr> m)
              else m)
           pending (objectKeys draft)"

definition yearField_p1 :: "string \<Rightarrow> bool" where
  "yearField_p1 field = (field \<noteq> ''id'' \<and> field \<noteq> ''grade'' \<and> startsWith ''year'' field)"

text \<open>Lines 266 to 296.\<close>

definition recordDrafts_p1 :: "jsobject list \<Rightarrow> jsobject list \<Rightarrow> (string \<times> change) list \<Rightarrow> (string \<times> change) list" where
  "recordDrafts_p1 updatedDataRows filteredDraftValues pending =
     foldl (\<lambda>m draft.
              case findById updatedDataRows (getField draft ''id'') of
                None \<Rightarrow> m
              | Some originalRow \<Rightarrow> recordDraft yearField_p1 (getField originalRow ''grade'') draft m)
           pending filteredDraftValues"

text \<open>\<^verbatim>\<open>this.configData ? parseInt(this.configData.F5_Contract_Length__c, 10) || 7 : 7\<close>\<close>

definition editMaxYears_p1 :: "config option \<Rightarrow> jsnum" where
  "editMaxYears_p1 cfgOpt =
     (case cfgOpt of
        None \<Rightarrow> Some 7
      | Some cfg \<Rightarrow>
          (case parseInt (F5_Contract_Length__c cfg) of
             None \<Rightarrow> Some 7
           | Some n \<Rightarrow> if n = 0 then Some 7 else Some n))"

definition handleDraftValueChange_p1 :: "'d js_host \<Rightarrow> jsobject list \<Rightarrow> state \<Rightarrow> state" where
  "handleDraftValueChange_p1 h drafts s =
     (let filteredDraftValues = filter notTotalsRow drafts
      in if length filteredDraftValues = 0 then s\<lparr>draftValues := []\<rparr>
         else
           let s1 = s\<lparr>hasChanges := True, draftValues := filteredDraftValues\<rparr>;
               currentDataRows = filter notTotalsRow (gridData s1);
               updatedDataRows = map (applyDrafts_p1 filteredDraftValues) currentDataRows;
               totalsRow = calculateTotals_p1 updatedDataRows (editMaxYears_p1 (configData s1));
               s2 = s1\<lparr>gridData := updatedDataRows @ [totalsRow]\<rparr>;
               s3 = s2\<lparr>pendingChanges :=
                          recordDrafts_p1 updatedDataRows filteredDraftValues (pendingChanges s2)\<rparr>;
               v = validateTotals_p1 h (configData s3) updatedDataRows
           in if \<not> isValid v then showToast ''Warning'' (joinLines (errors v)) ''warning'' s3
              else s3)"

subsection \<open>Saving\<close>

definition truthyStr :: "string option \<Rightarrow> bool" where
  "truthyStr m = (case m of None \<Rightarrow> False | Some t \<Rightarrow> t \<noteq> [])"

text \<open>The \<^verbatim>\<open>catch\<close> block's choice of the message.\<close>

definition saveErrorMessage :: "js_error option \<Rightarrow> string" where
  "saveErrorMessage error =
     (case error of
        None \<Rightarrow> ''An unknown error occurred.''
      | Some e \<Rightarrow>
          if truthyStr (errorBodyMessage e) then the (errorBodyMessage e)
          else if truthyStr (errorMessage e) then the (errorMessage e)
          else ''An unknown error occurred.'')"

definition saveFailed :: "js_error option \<Rightarrow> state \<Rightarrow> state" where
  "saveFailed error s =
     showToast ''Error'' (''Failed to save changes: '' @ saveErrorMessage error) ''error'' s"

text \<open>
  \<^verbatim>\<open>handleSave\<close> awaits two calls; what each settles to is an argument
  (\<open>saved\<close> for \<^verbatim>\<open>saveLicenseData\<close>, \<open>refreshed\<close> for \<^verbatim>\<open>refreshApex\<close>).
\<close>

definition handleSave_p1 :: "'d js_host \<Rightarrow> outcome \<Rightarrow> outcome \<Rightarrow> state \<Rightarrow> state" where
  "handleSave_p1 h saved refreshed s =
     (if \<not> hasChanges s \<or> length (pendingChanges s) = 0
      then showToast ''Info'' ''No changes to save.'' ''info'' s
      else
        let dataRows = filter notTotalsRow (gridData s);
            v = validateTotals_p1 h (configData s) dataRows
        in if \<not> isValid v
           then showToast ''Error''
                  (''Cannot save due to validation errors:'' @ [CHR 0x0A] @ joinLines (errors v))
                  ''error'' s
           else
             let s1 = s\<lparr>isLoading := True\<rparr>;
                 changes = map snd (pendingChanges s1);
                 s2 = s1\<lparr>saveCalls := saveCalls s1 @ [changes]\<rparr>;
                 s3 = (case saved of
                         Rejected error \<Rightarrow> saveFailed error s2
                       | Fulfilled \<Rightarrow>
                           let t1 = showToast ''Success'' ''License quantities saved successfully''
                                      ''success'' s2;
                               t2 = t1\<lparr>hasChanges := False, pendingChanges := [], draftValues := []\<rparr>;
                               t3 = (case datatableDraftValues t2 of
                                       None \<Rightarrow> t2
                                     | Some _ \<Rightarrow> t2\<lparr>datatableDraftValues := Some []\<rparr>);
                               t4 = t3\<lparr>refreshCalls := refreshCalls t3 + 1\<rparr>
                           in (case refreshed of
                                 Rejected error \<Rightarrow> saveFailed error t4
                               | Fulfilled \<Rightarrow> t4))
             in s3\<lparr>isLoading := False\<rparr>)"

section \<open>The component of licenseQuantityGrid.js (lines 181 to 513)\<close>

subsection \<open>Columns and date labels\<close>

text \<open>\<^verbatim>\<open>(this.configData && this.configData.F5_Contract_Length__c) ? parseInt(...) : 5\<close>\<close>

definition maxYears_lqg :: "config option \<Rightarrow> jsnum" where
  "maxYears_lqg cfgOpt =
     (case cfgOpt of
        None \<Rightarrow> Some 5
      | Some cfg \<Rightarrow>
          if truthy (F5_Contract_Length__c cfg) then parseInt (F5_Contract_Length__c cfg)
          else Some 5)"

text \<open>The regular expression \<^verbatim>\<open>/^(\d{4})-(\d{2})-(\d{2})$/\<close>.\<close>

definition isoDate :: "string \<Rightarrow> bool" where
  "isoDate s =
     (length s = 10 \<and> list_all isDigit (take 4 s) \<and> s ! 4 = CHR ''-'' \<and>
      list_all isDigit (take 2 (drop 5 s)) \<and> s ! 7 = CHR ''-'' \<and>
      list_all isDigit (drop 8 s))"

text \<open>
  \<^verbatim>\<open>americanDateFormat\<close> with the regular expression. A truthy input that is not a
  string has no \<^verbatim>\<open>match\<close> method: a TypeError, which nothing catches here.
\<close>

definition americanDateFormat_lqg :: "jsval \<Rightarrow> js_exception + jsval" where
  "americanDateFormat_lqg inputDate =
     (if \<not> truthy inputDate then Inr JNull
      else (case inputDate of
              JStr s \<Rightarrow>
                Inr (if isoDate s
                     then JStr (take 2 (drop 5 s) @ ''/'' @ drop 8 s @ ''/'' @ take 4 s)
                     else JNull)
            | _ \<Rightarrow> Inl TypeError))"

text \<open>\<^verbatim>\<open>addYearsToDateString\<close> without a \<^verbatim>\<open>try\<close>: \<^verbatim>\<open>toISOString\<close> on an invalid
  date raises a RangeError.\<close>

definition addYearsToDateString_lqg :: "'d js_host \<Rightarrow> jsval \<Rightarrow> int \<Rightarrow> js_exception + jsval" where
  "addYearsToDateString_lqg h dateString yearsToAdd =
     (if \<not> truthy dateString then Inr JNull
      else (case newDate h dateString of
              None \<Rightarrow> Inl RangeError
            | Some d \<Rightarrow>
                (case setFullYear h d (getFullYear h d + yearsToAdd) of
                   None \<Rightarrow> Inl RangeError
                 | Some d' \<Rightarrow> Inr (JStr (beforeT (toISOString h d'))))))"

definition dateLabel_lqg :: "'d js_host \<Rightarrow> config \<Rightarrow> int \<Rightarrow> js_exception + jsval" where
  "dateLabel_lqg h cfg i =
     (let currentDate = F5_LMS_Start_Date__c cfg;
          nextDate = F5_Initial_Renewal_date__c cfg
      in if i = 1 then
           (if truthy currentDate then americanDateFormat_lqg currentDate
            else Inr (JStr ''Year 1''))
         else
           (if truthy nextDate then
              (case addYearsToDateString_lqg h nextDate (i - 1) of
                 Inl e \<Rightarrow> Inl e
               | Inr d \<Rightarrow> americanDateFormat_lqg d)
            else Inr (JStr (''Year '' @ showInt (i - 1)))))"

text \<open>The loop of the \<^verbatim>\<open>columns\<close> getter: the first exception ends it.\<close>

fun yearColumns_lqg :: "'d js_host \<Rightarrow> config \<Rightarrow> int list \<Rightarrow> js_exception + column list" where
  "yearColumns_lqg h cfg [] = Inr []"
| "yearColumns_lqg h cfg (i # rest) =
     (case dateLabel_lqg h cfg i of
        Inl e \<Rightarrow> Inl e
      | Inr l \<Rightarrow>
          (case yearColumns_lqg h cfg rest of
             Inl e \<Rightarrow> Inl e
           | Inr cs \<Rightarrow>
               Inr (\<lparr>label = l, fieldName = yearKey i, colType = ''number'', editable = True\<rparr> # cs)))"

definition columns_lqg :: "'d js_host \<Rightarrow> config option \<Rightarrow> js_exception + column list" where
  "columns_lqg h cfgOpt =
     (case cfgOpt of
        None \<Rightarrow> Inr []
      | Some cfg \<Rightarrow>
          (case yearColumns_lqg h cfg
                  (yearsUpTo (if truthy (F5_Contract_Length__c cfg)
                              then parseInt (F5_Contract_Length__c cfg) else Some 7)) of
             Inl e \<Rightarrow> Inl e
           | Inr cs \<Rightarrow> Inr (zeroColumn # cs)))"

definition getYearLabel_lqg :: "'d js_host \<Rightarrow> config option \<Rightarrow> int \<Rightarrow> js_exception + jsval" where
  "getYearLabel_lqg h cfgOpt yearNum =
     (case columns_lqg h cfgOpt of
        Inl e \<Rightarrow> Inl e
      | Inr columns \<Rightarrow>
          Inr (if 0 \<le> yearNum \<and> yearNum < int (length columns)
               then label (columns ! nat yearNum)
               else JStr (''Year '' @ showInt yearNum)))"

subsection \<open>Totals\<close>

text \<open>\<^verbatim>\<open>data.reduce((sum, row) => sum + (row[yearKey] || 0), 0)\<close>\<close>

definition yearTotal_lqg :: "jsobject list \<Rightarrow> string \<Rightarrow> jsval" where
  "yearTotal_lqg dataRows k =
     foldl (\<lambda>sum row. js_add sum (js_or (getField row k) (JNum 0))) (JNum 0) dataRows"

definition totalsBase_lqg :: jsobject where
  "totalsBase_lqg =
     [(''id'', JStr ''totals-row''), (''grade'', JStr ''Total''),
      (''rowClass'', JStr ''total-row slds-text-heading_small slds-text-color_success'')]"

definition calculateTotals_lqg :: "jsobject list \<Rightarrow> jsnum \<Rightarrow> jsobject" where
  "calculateTotals_lqg dataRows maxYears =
     foldl (\<lambda>totals y. setField (yearKey y) (yearTotal_lqg dataRows (yearKey y)) totals)
       totalsBase_lqg (yearsUpTo maxYears)"

subsection \<open>Building the grid\<close>

definition mainRow_lqg :: "jsobject \<Rightarrow> jsnum \<Rightarrow> nat \<times> string \<Rightarrow> jsobject" where
  "mainRow_lqg dataMap maxYears ig =
     (let index = fst ig; g = snd ig
      in foldl (\<lambda>row y.
            setField (yearKey y) (js_or (getField dataMap (g @ ''_'' @ showInt y)) JNull) row)
          [(''id'', JStr (''row-'' @ showNat index)), (''grade'', JStr g), (''rowClass'', JStr [])]
          (yearsUpTo maxYears))"

definition processLicenseData_lqg :: "license_record list \<Rightarrow> state \<Rightarrow> state" where
  "processLicenseData_lqg data s =
     (let dataMap = buildDataMap data;
          maxYears = maxYears_lqg (configData s);
          mainData = map (mainRow_lqg dataMap maxYears) (enumerate 0 gradeLabels);
          totalsRow = calculateTotals_lqg mainData maxYears
      in s\<lparr>gridData := mainData @ [totalsRow]\<rparr>)"

subsection \<open>Validation\<close>

text \<open>\<^verbatim>\<open>total > maxLicense\<close>, where the total may have become a string.\<close>

definition jsGreater :: "'d js_host \<Rightarrow> jsval \<Rightarrow> int \<Rightarrow> bool" where
  "jsGreater h v m =
     (case v of
        JStr s \<Rightarrow> strGreater h s m
      | _ \<Rightarrow> (case toNumber v of None \<Rightarrow> False | Some t \<Rightarrow> m < t))"

fun validateYears_lqg :: "'d js_host \<Rightarrow> config option \<Rightarrow> jsobject list \<Rightarrow> int \<Rightarrow> int list \<Rightarrow> js_exception + string list" where
  "validateYears_lqg h cfgOpt dataRows maxLicense [] = Inr []"
| "validateYears_lqg h cfgOpt dataRows maxLicense (y # rest) =
     (let tot = yearTotal_lqg dataRows (yearKey y)
      in if jsGreater h tot maxLicense then
           (case getYearLabel_lqg h cfgOpt y of
              Inl e \<Rightarrow> Inl e
            | Inr yearLabel \<Rightarrow>
                (case validateYears_lqg h cfgOpt dataRows maxLicense rest of
                   Inl e \<Rightarrow> Inl e
                 | Inr es \<Rightarrow> Inr (limitMessage yearLabel tot (JNum maxLicense) # es)))
         else validateYears_lqg h cfgOpt dataRows maxLicense rest)"

text \<open>\<^verbatim>\<open>this.configData?.F5_Maximum_License__c ? parseInt(..., 10) : null\<close>, and
  \<^verbatim>\<open>!maxLicense\<close> of it: \<open>None\<close> below stands for \<^verbatim>\<open>null\<close>, \<^verbatim>\<open>NaN\<close> and 0.\<close>

definition maxLicense_lqg :: "config option \<Rightarrow> int option" where
  "maxLicense_lqg cfgOpt =
     (case cfgOpt of
        None \<Rightarrow> None
      | Some cfg \<Rightarrow>
          if truthy (F5_Maximum_License__c cfg) then
            (case parseInt (F5_Maximum_License__c cfg) of
               None \<Rightarrow> None
             | Some m \<Rightarrow> if m = 0 then None else Some m)
          else None)"

definition validateTotals_lqg :: "'d js_host \<Rightarrow> config option \<Rightarrow> jsobject list \<Rightarrow> js_exception + validation" where
  "validateTotals_lqg h cfgOpt dataRows =
     (case maxLicense_lqg cfgOpt of
        None \<Rightarrow> Inr \<lparr>isValid = True, errors = []\<rparr>
      | Some maxLicense \<Rightarrow>
          (case validateYears_lqg h cfgOpt dataRows maxLicense (yearsUpTo (maxYears_lqg cfgOpt)) of
             Inl e \<Rightarrow> Inl e
           | Inr errs \<Rightarrow> Inr \<lparr>isValid = (length errs = 0), errors = errs\<rparr>))"

subsection \<open>Merging an edit batch\<close>

text \<open>Lines 368 to 371: the first row with the draft's id becomes
  \<^verbatim>\<open>{ ...row, ...draft }\<close>.\<close>

fun mergeDraft_lqg :: "jsobject \<Rightarrow> jsobject list \<Rightarrow> jsobject list" where
  "mergeDraft_lqg draft [] = []"
| "mergeDraft_lqg draft (row # rows) =
     (if strictEq (getField row ''id'') (getField draft ''id'') then spread row draft # rows
      else row # mergeDraft_lqg draft rows)"

definition field_lqg :: "string \<Rightarrow> bool" where
  "field_lqg field = (field \<noteq> ''id'' \<and> field \<noteq> ''grade'')"

text \<open>Lines 360 to 395: one draft entry, on the rows and the pending changes.\<close>

definition applyDraft_lqg :: "jsobject list \<times> (string \<times> change) list \<Rightarrow> jsobject \<Rightarrow> jsobject list \<times> (string \<times> change) list" where
  "applyDraft_lqg acc draft =
     (let rows = fst acc; pending = snd acc
      in case findById rows (getField draft ''id'') of
           None \<Rightarrow> acc
         | Some originalRow \<Rightarrow>
             (mergeDraft_lqg draft rows,
              recordDraft field_lqg (getField originalRow ''grade'') draft pending))"

text \<open>
  The handler. An exception of \<^verbatim>\<open>validateTotals\<close> leaves it where it was raised:
  \<open>Inl\<close> holds the exception and the state reached by then.
\<close>

definition handleDraftValueChange_lqg :: "'d js_host \<Rightarrow> jsobject list \<Rightarrow> state \<Rightarrow> (js_exception \<times> state) + state" where
  "handleDraftValueChange_lqg h drafts s =
     (let filtered = filter notTotalsRow drafts;
          s1 = s\<lparr>draftValues := filtered\<rparr>
      in if length filtered = 0 then Inr s1
         else
           let s2 = s1\<lparr>hasChanges := True\<rparr>;
               originalDataRows = filter notTotalsRow (gridData s2);
               acc = foldl applyDraft_lqg (originalDataRows, pendingChanges s2) filtered;
               rows = fst acc;
               updatedPendingChanges = snd acc
           in case validateTotals_lqg h (configData s2) rows of
                Inl e \<Rightarrow> Inl (e, s2)
              | Inr v \<Rightarrow>
                  let s3 = (if \<not> isValid v
                            then showToast ''Warning''
                                   (''Validation Warnings:'' @ [CHR 0x0A] @ joinLines (errors v))
                                   ''warning'' s2
                            else s2);
                      totalsRow = calculateTotals_lqg rows (maxYears_lqg (configData s3))
                  in Inr (s3\<lparr>gridData := rows @ [totalsRow],
                              pendingChanges := updatedPendingChanges\<rparr>))"

section \<open>The grid builder of src/unnamed/part_000\<close>

text \<open>Lines 79 to 98. The rows have an id, a grade and the year cells; there is no
  totals row in this file.\<close>

definition maxYears_p0 :: "config option \<Rightarrow> jsnum" where
  "maxYears_p0 cfgOpt =
     (case cfgOpt of
        None \<Rightarrow> Some 7
      | Some cfg \<Rightarrow>
          if truthy (F5_Contract_Length__c cfg) then parseInt (F5_Contract_Length__c cfg)
          else Some 7)"

definition mainRow_p0 :: "jsobject \<Rightarrow> jsnum \<Rightarrow> nat \<times> string \<Rightarrow> jsobject" where
  "mainRow_p0 dataMap maxYears ig =
     (let index = fst ig; g = snd ig
      in foldl (\<lambda>row y.
            setField (yearKey y) (js_or (getField dataMap (g @ ''_'' @ showInt y)) JNull) row)
          [(''id'', JStr (''row-'' @ showNat index)), (''grade'', JStr g)]
          (yearsUpTo maxYears))"

definition processLicenseData_p0 :: "license_record list \<Rightarrow> state \<Rightarrow> state" where
  "processLicenseData_p0 data s =
     (let dataMap = buildDataMap data
      in s\<lparr>gridData := map (mainRow_p0 dataMap (maxYears_p0 (configData s)))
                            (enumerate 0 gradeLabels)\<rparr>)"

section \<open>A host for the closed examples\<close>

text \<open>
  The examples below need one host to run on. This one is in the UTC time zone, and
  its \<^verbatim>\<open>Date\<close> is the calendar date (year, month from 0, day): it reads the
  date-only ISO form \<^verbatim>\<open>YYYY-MM-DD\<close> of a real calendar day and takes every other
  argument for an invalid date; it compares a string of digits with a number by its
  value. It stands for a runtime on these inputs only; every general theorem below is
  about any host.
\<close>

definition leapYear :: "int \<Rightarrow> bool" where
  "leapYear y = (y mod 4 = 0 \<and> (y mod 100 \<noteq> 0 \<or> y mod 400 = 0))"

definition daysInMonth :: "int \<Rightarrow> int \<Rightarrow> int" where
  "daysInMonth y m =
     (if m = 2 then (if leapYear y then 29 else 28)
      else if m = 4 \<or> m = 6 \<or> m = 9 \<or> m = 11 then 30 else 31)"

definition utcNewDate :: "jsval \<Rightarrow> (int \<times> int \<times> int) option" where
  "utcNewDate v =
     (case v of
        JStr s \<Rightarrow>
          (let y = parseDigits (take 4 s);
               m = parseDigits (take 2 (drop 5 s));
               d = parseDigits (drop 8 s)
           in if isoDate s \<and> 1 \<le> m \<and> m \<le> 12 \<and> 1 \<le> d \<and> d \<le> daysInMonth y m
              then Some (y, m - 1, d) else None)
      | _ \<Rightarrow> None)"

definition utcSetFullYear :: "int \<times> int \<times> int \<Rightarrow> int \<Rightarrow> (int \<times> int \<times> int) option" where
  "utcSetFullYear date y =
     (let m = fst (snd date); d = snd (snd date)
      in if m = 1 \<and> d = 29 \<and> \<not> leapYear y then Some (y, 2, 1) else Some (y, m, d))"

definition padZeros :: "nat \<Rightarrow> string \<Rightarrow> string" where
  "padZeros n s = replicate (n - length s) CHR ''0'' @ s"

definition utcToISOString :: "int \<times> int \<times> int \<Rightarrow> string" where
  "utcToISOString date =
     padZeros 4 (showInt (fst date)) @ ''-'' @ padZeros 2 (showInt (fst (snd date) + 1)) @ ''-'' @
     padZeros 2 (showInt (snd (snd date))) @ ''T00:00:00.000Z''"

definition utcHost :: "(int \<times> int \<times> int) js_host" where
  "utcHost =
     \<lparr>newDate = utcNewDate,
      getFullYear = fst,
      getMonth = (\<lambda>date. fst (snd date)),
      getDate = (\<lambda>date. snd (snd date)),
      setFullYear = utcSetFullYear,
      toISOString = utcToISOString,
      strGreater = (\<lambda>s n. s \<noteq> [] \<and> list_all isDigit s \<and> n < parseDigits s)\<rparr>"

section \<open>Example data\<close>

text \<open>
  The scenario of the specification, on two year columns: a limit of 100 licenses,
  40 for grade K and 50 for grade 1 in the first year, and a record with the
  quantity 0 for grade 2 in the second year.
\<close>

definition exConfig :: config where
  "exConfig =
     \<lparr>F5_Contract_Length__c = JNum 2, F5_LMS_Start_Date__c = JStr ''2024-08-01'',
      F5_Initial_Renewal_date__c = JStr ''2025-08-01'', F5_Maximum_License__c = JNum 100\<rparr>"

definition exRecords :: "license_record list" where
  "exRecords =
     [\<lparr>Grade_Level__c = JStr ''K'', Year__c = JNum 1, License_Quantity__c = JNum 40\<rparr>,
      \<lparr>Grade_Level__c = JStr ''1'', Year__c = JNum 1, License_Quantity__c = JNum 50\<rparr>,
      \<lparr>Grade_Level__c = JStr ''2'', Year__c = JNum 2, License_Quantity__c = JNum 0\<rparr>]"

text \<open>The component as it is mounted, once the configuration has arrived.\<close>

definition exMounted :: state where
  "exMounted =
     \<lparr>gridData = [], isLoading = False, hasChanges = False, pendingChanges = [],
      draftValues = [], configData = Some exConfig, originalLicenseData = [],
      toasts = [], saveCalls = [], refreshCalls = 0, datatableDraftValues = Some []\<rparr>"

definition exDraft :: "string \<Rightarrow> string \<Rightarrow> string \<Rightarrow> jsobject" where
  "exDraft rowId field v = [(''id'', JStr rowId), (field, JStr v)]"

text \<open>The grid of \<^verbatim>\<open>src/unnamed/part_001\<close> built from the records; then grade K,
  year 1 edited to 45 (the total 95 is within the limit) and to 70 (the total 120
  is not).\<close>

definition exBuilt_p1 :: state where
  "exBuilt_p1 = processLicenseData_p1 exRecords exMounted"

definition exEdited45_p1 :: state where
  "exEdited45_p1 = handleDraftValueChange_p1 utcHost [exDraft ''row-0'' ''year1'' ''45''] exBuilt_p1"

definition exEdited70_p1 :: state where
  "exEdited70_p1 = handleDraftValueChange_p1 utcHost [exDraft ''row-0'' ''year1'' ''70''] exBuilt_p1"

text \<open>The same configuration with no limit, and with the limit 0.\<close>

definition exNoLimit :: config where
  "exNoLimit = exConfig\<lparr>F5_Maximum_License__c := JUndefined\<rparr>"

definition exLimit0 :: config where
  "exLimit0 = exConfig\<lparr>F5_Maximum_License__c := JNum 0\<rparr>"

definition exBuilt_lqg :: state where
  "exBuilt_lqg = processLicenseData_lqg exRecords (exMounted\<lparr>configData := Some exNoLimit\<rparr>)"

text \<open>A limit that is truthy and no number.\<close>

definition exWordLimit :: config where
  "exWordLimit = exConfig\<lparr>F5_Maximum_License__c := JStr ''none''\<rparr>"

definition exEdited70_limit0 :: state where
  "exEdited70_limit0 =
     handleDraftValueChange_p1 utcHost [exDraft ''row-0'' ''year1'' ''70'']
       (processLicenseData_p1 exRecords (exMounted\<lparr>configData := Some exLimit0\<rparr>))"

text \<open>Edits that are no quantity: a negative number, in \<^verbatim>\<open>src/unnamed/part_001\<close>,
  and a word, in \<^verbatim>\<open>licenseQuantityGrid.js\<close>.\<close>

definition exEditedMinus5_p1 :: state where
  "exEditedMinus5_p1 =
     handleDraftValueChange_p1 utcHost [exDraft ''row-0'' ''year1'' ''-5''] exBuilt_p1"

definition exEditedMinus3_p1 :: state where
  "exEditedMinus3_p1 =
     handleDraftValueChange_p1 utcHost [exDraft ''row-1'' ''year2'' ''-3''] exBuilt_p1"

definition exEdited70_lqg :: "(js_exception \<times> state) + state" where
  "exEdited70_lqg =
     handleDraftValueChange_lqg utcHost [exDraft ''row-0'' ''year1'' ''70''] exBuilt_lqg"

definition exEditedWord_lqg :: "(js_exception \<times> state) + state" where
  "exEditedWord_lqg =
     handleDraftValueChange_lqg utcHost [exDraft ''row-1'' ''year2'' ''abc''] exBuilt_lqg"




section \<open>Decimal notation: printing and reading back\<close>

lemma showDigits_small: "n < 10 \<Longrightarrow> showDigits n = [digitChar (nat n)]"
  by (simp add: showDigits.simps)

lemma showDigits_large:
  "10 \<le> n \<Longrightarrow> showDigits n = showDigits (n div 10) @ [digitChar (nat (n mod 10))]"
  by (subst showDigits.simps) simp

lemma digit_cases:
  "d < 10 \<Longrightarrow> d = 0 \<or> d = 1 \<or> d = 2 \<or> d = 3 \<or> d = 4 \<or> d = 5 \<or> d = 6 \<or> d = 7 \<or> d = 8 \<or> d = (9::nat)"
  by arith

lemma isDigit_digitChar: "d < 10 \<Longrightarrow> isDigit (digitChar d)"
  using digit_cases [of d] by (auto simp: isDigit_def digitChar_def digitChars_def)

lemma digitVal_digitChar: "d < 10 \<Longrightarrow> digitVal (digitChar d) = d"
  using digit_cases [of d] by (auto simp: digitVal_def digitChar_def digitChars_def)

lemma digitChar_not_space: "d < 10 \<Longrightarrow> \<not> isWhiteSpace (digitChar d)"
  using digit_cases [of d] by (auto simp: isWhiteSpace_def digitChar_def digitChars_def)

lemma digitChar_not_sign:
  "d < 10 \<Longrightarrow> digitChar d \<noteq> CHR ''-'' \<and> digitChar d \<noteq> CHR ''+''"
  using digit_cases [of d] by (auto simp: digitChar_def digitChars_def)

lemma digitChar_not_y: "d < 10 \<Longrightarrow> digitChar d \<noteq> CHR ''y''"
  using digit_cases [of d] by (auto simp: digitChar_def digitChars_def)

lemma showDigits_digits: "list_all isDigit (showDigits n)"
proof (induction n rule: showDigits.induct)
  case (1 n)
  show ?case
  proof (cases "n < 10")
    case True
    then show ?thesis by (simp add: showDigits_small isDigit_digitChar)
  next
    case False
    with 1 show ?thesis by (simp add: showDigits_large isDigit_digitChar)
  qed
qed

lemma showDigits_hd: "\<exists>d r. d < 10 \<and> showDigits n = digitChar d # r"
proof (induction n rule: showDigits.induct)
  case (1 n)
  show ?case
  proof (cases "n < 10")
    case True
    then have "nat n < 10" by simp
    with True show ?thesis by (auto simp: showDigits_small)
  next
    case False
    with 1 obtain d r where "d < 10" "showDigits (n div 10) = digitChar d # r" by auto
    with False show ?thesis by (auto simp: showDigits_large)
  qed
qed

lemma parseDigits_snoc: "parseDigits (ds @ [c]) = 10 * parseDigits ds + int (digitVal c)"
  by (simp add: parseDigits_def)

lemma parseDigits_showDigits: "0 \<le> n \<Longrightarrow> parseDigits (showDigits n) = n"
proof (induction n rule: showDigits.induct)
  case (1 n)
  show ?case
  proof (cases "n < 10")
    case True
    with 1(2) show ?thesis
      by (simp add: showDigits_small parseDigits_def digitVal_digitChar)
  next
    case False
    then have "0 \<le> n div 10" by simp
    with False 1 have "parseDigits (showDigits (n div 10)) = n div 10" by simp
    moreover have "nat (n mod 10) < 10" by simp
    ultimately show ?thesis
      using False by (simp add: showDigits_large parseDigits_snoc digitVal_digitChar)
  qed
qed

lemma takeWhile_all: "list_all P xs \<Longrightarrow> takeWhile P xs = xs"
  by (induction xs) auto

lemma parseIntStr_showDigits: "0 \<le> n \<Longrightarrow> parseIntStr (showDigits n) = Some n"
proof -
  assume n: "0 \<le> n"
  obtain d r where d: "d < 10" and s: "showDigits n = digitChar d # r"
    using showDigits_hd by blast
  have all: "takeWhile isDigit (showDigits n) = showDigits n"
    by (rule takeWhile_all) (rule showDigits_digits)
  have "dropWhile isWhiteSpace (showDigits n) = showDigits n"
    using d s by (simp add: digitChar_not_space)
  moreover have "showDigits n \<noteq> []" using s by simp
  ultimately show ?thesis
    using d s all digitChar_not_sign [OF d] parseDigits_showDigits [OF n]
    by (simp add: parseIntStr_def Let_def)
qed

lemma parseIntStr_showInt: "parseIntStr (showInt i) = Some i"
proof (cases "i < 0")
  case False
  then show ?thesis by (simp add: showInt_def parseIntStr_showDigits)
next
  case True
  have all: "takeWhile isDigit (showDigits (- i)) = showDigits (- i)"
    by (rule takeWhile_all) (rule showDigits_digits)
  obtain d r where s: "showDigits (- i) = digitChar d # r"
    using showDigits_hd by blast
  have "\<not> isWhiteSpace CHR ''-''" by (simp add: isWhiteSpace_def)
  then show ?thesis
    using True all s parseDigits_showDigits [of "- i"]
    by (simp add: showInt_def parseIntStr_def Let_def)
qed

lemma parseInt_JNum: "parseInt (JNum n) = Some n"
  by (simp add: parseInt_def parseIntStr_showInt)

lemma showInt_inject: "showInt i = showInt j \<Longrightarrow> i = j"
proof -
  assume "showInt i = showInt j"
  then have "parseIntStr (showInt i) = parseIntStr (showInt j)" by simp
  then show "i = j" by (simp add: parseIntStr_showInt)
qed

lemma yearKey_inject: "yearKey y = yearKey z \<Longrightarrow> y = z"
  by (simp add: yearKey_def showInt_inject)

section \<open>Objects and year columns\<close>

lemma getField_setField:
  "getField (setField k v obj) k' = (if k' = k then v else getField obj k')"
  by (simp add: getField_def setField_def update_conv')

lemma yearKey_not_base:
  "yearKey y \<noteq> ''id''" "yearKey y \<noteq> ''grade''" "yearKey y \<noteq> ''rowClass''"
  "yearKey y \<noteq> ''gradeClass''"
  by (simp_all add: yearKey_def)

text \<open>A loop that assigns the year fields in turn: a field that is no year field
  keeps its value, and the field of a year the loop visits holds that year's value.\<close>

lemma getField_years_other:
  "\<forall>y \<in> set ys. yearKey y \<noteq> k \<Longrightarrow>
   getField (foldl (\<lambda>row y. setField (yearKey y) (f y) row) base ys) k = getField base k"
  by (induction ys rule: rev_induct) (auto simp: getField_setField)

lemma getField_years:
  "y \<in> set ys \<Longrightarrow>
   getField (foldl (\<lambda>row y. setField (yearKey y) (f y) row) base ys) (yearKey y) = f y"
proof (induction ys rule: rev_induct)
  case Nil
  then show ?case by simp
next
  case (snoc z zs)
  show ?case
  proof (cases "z = y")
    case True
    then show ?thesis by (simp add: getField_setField)
  next
    case False
    with snoc.prems have "y \<in> set zs" by simp
    moreover from False have "yearKey z \<noteq> yearKey y" using yearKey_inject by blast
    ultimately show ?thesis using snoc.IH by (simp add: getField_setField)
  qed
qed

lemma yearsUpTo_mem: "y \<in> set (yearsUpTo (Some n)) \<longleftrightarrow> 1 \<le> y \<and> y \<le> n"
  by simp

lemma yearsUpTo_nth:
  "y \<in> set (yearsUpTo mx) \<Longrightarrow> map f (yearsUpTo mx) ! (nat y - 1) = f y"
proof (cases mx)
  case None
  assume "y \<in> set (yearsUpTo mx)"
  with None show ?thesis by simp
next
  case (Some n)
  assume "y \<in> set (yearsUpTo mx)"
  with Some have y: "1 \<le> y" "y \<le> n" by simp_all
  then have "nat y - 1 < length [1..n]" by simp
  moreover from y have "[1..n] ! (nat y - 1) = y" by (simp add: nth_upto)
  ultimately show ?thesis using Some by simp
qed

lemma concat_map_if: "concat (map (\<lambda>y. if P y then [f y] else []) ys) = map f (filter P ys)"
  by (induction ys) simp_all

lemma foldl_add_sum_list:
  "foldl (\<lambda>sum row. sum + g row) (a::int) rows = a + sum_list (map g rows)"
  by (induction rows arbitrary: a) simp_all

lemma yearTotal_p1_sum:
  "yearTotal_p1 rows k = (\<Sum>row\<leftarrow>rows. cellNumber_p1 (getField row k))"
  by (simp add: yearTotal_p1_def foldl_add_sum_list)

lemma cellNumber_p1_simps:
  "cellNumber_p1 JNull = 0" "cellNumber_p1 JUndefined = 0" "cellNumber_p1 (JNum n) = n"
  by (simp_all add: cellNumber_p1_def parseInt_JNum)

lemma cellNumber_p1_JNaN: "cellNumber_p1 JNaN = 0"
  by (simp add: cellNumber_p1_def parseInt_def parseIntStr_def isWhiteSpace_def isDigit_def
      digitChars_def)

section \<open>Columns and labels of src/unnamed/part_001\<close>

lemma columns_p1_nth:
  assumes "y \<in> set (yearsUpTo (contractLength_p1 cfg))"
  shows "columns_p1 h (Some cfg) ! nat y =
           \<lparr>label = dateLabel_p1 h cfg y, fieldName = yearKey y,
            colType = ''number'', editable = True\<rparr>"
proof -
  from assms have "1 \<le> y" by (cases "contractLength_p1 cfg") simp_all
  then have "nat y = Suc (nat y - 1)" by simp
  then have "columns_p1 h (Some cfg) ! nat y =
      map (\<lambda>i. \<lparr>label = dateLabel_p1 h cfg i, fieldName = yearKey i,
                 colType = ''number'', editable = True\<rparr>)
          (yearsUpTo (contractLength_p1 cfg)) ! (nat y - 1)"
    by (simp add: columns_p1_def)
  then show ?thesis using yearsUpTo_nth [OF assms] by simp
qed

lemma getYearLabel_p1_column:
  assumes "y \<in> set (yearsUpTo (contractLength_p1 cfg))"
  shows "getYearLabel_p1 h (Some cfg) y = dateLabel_p1 h cfg y"
proof -
  from assms have "0 \<le> y \<and> y < int (length (columns_p1 h (Some cfg)))"
    by (cases "contractLength_p1 cfg") (simp_all add: columns_p1_def)
  then show ?thesis
    using columns_p1_nth [OF assms, of h] by (simp add: getYearLabel_p1_def Let_def)
qed

section \<open>The grid builders\<close>

lemma getField_base:
  "getField ((k, v) # obj) k' = (if k' = k then v else getField obj k')"
  by (simp add: getField_def)

lemma mainRow_p1_id_grade:
  "getField (mainRow_p1 dm mx (i, g)) ''id'' = JStr (''row-'' @ showNat i)"
  "getField (mainRow_p1 dm mx (i, g)) ''grade'' = JStr g"
  by (simp_all add: mainRow_p1_def Let_def getField_years_other yearKey_not_base getField_base)

lemma calculateTotals_p1_id_grade:
  "getField (calculateTotals_p1 rows mx) ''id'' = JStr ''totals-row''"
  "getField (calculateTotals_p1 rows mx) ''grade'' = JStr ''Total''"
  by (simp_all add: calculateTotals_p1_def totalsBase_p1_def getField_years_other
      yearKey_not_base getField_base)

lemma enumerate_gradeLabels:
  "enumerate 0 gradeLabels =
     [(0, ''K''), (1, ''1''), (2, ''2''), (3, ''3''), (4, ''4''), (5, ''5''), (6, ''6''),
      (7, ''7''), (8, ''8'')]"
  by (simp add: gradeLabels_def)

lemma showNat_digit: "n < 10 \<Longrightarrow> showNat n = [digitChar n]"
  by (simp add: showNat_def showDigits_small)

lemma buildGrid_p1_grades:
  "map (\<lambda>row. getField row ''grade'') (buildGrid_p1 cfg data) =
     [JStr ''K'', JStr ''1'', JStr ''2'', JStr ''3'', JStr ''4'', JStr ''5'', JStr ''6'',
      JStr ''7'', JStr ''8'', JStr ''Total'']"
  by (simp add: buildGrid_p1_def Let_def enumerate_gradeLabels mainRow_p1_id_grade
      calculateTotals_p1_id_grade)

lemma buildGrid_p1_ids:
  "map (\<lambda>row. getField row ''id'') (buildGrid_p1 cfg data) =
     [JStr ''row-0'', JStr ''row-1'', JStr ''row-2'', JStr ''row-3'', JStr ''row-4'',
      JStr ''row-5'', JStr ''row-6'', JStr ''row-7'', JStr ''row-8'', JStr ''totals-row'']"
  by (simp add: buildGrid_p1_def Let_def enumerate_gradeLabels mainRow_p1_id_grade
      calculateTotals_p1_id_grade showNat_digit digitChar_def digitChars_def)

text \<open>
  Claim C7. \<^verbatim>\<open>processLicenseData\<close> of \<^verbatim>\<open>src/unnamed/part_001\<close>, once the
  configuration is there: the grid has the rows of the grades K, 1, ..., 8 in this
  order, with the ids row-0 to row-8, and the totals row last; it is a function of
  the configuration and the records alone (two components with the same
  configuration build the same grid from the same records, whatever they held before),
  and building again from the same records changes nothing.
\<close>

theorem processLicenseData_p1_deterministic:
  "(configData s = Some cfg \<longrightarrow>
      map (\<lambda>row. getField row ''grade'') (gridData (processLicenseData_p1 data s)) =
        [JStr ''K'', JStr ''1'', JStr ''2'', JStr ''3'', JStr ''4'', JStr ''5'', JStr ''6'',
         JStr ''7'', JStr ''8'', JStr ''Total''] \<and>
      map (\<lambda>row. getField row ''id'') (gridData (processLicenseData_p1 data s)) =
        [JStr ''row-0'', JStr ''row-1'', JStr ''row-2'', JStr ''row-3'', JStr ''row-4'',
         JStr ''row-5'', JStr ''row-6'', JStr ''row-7'', JStr ''row-8'', JStr ''totals-row''] \<and>
      (configData s' = Some cfg \<longrightarrow>
         gridData (processLicenseData_p1 data s') = gridData (processLicenseData_p1 data s))) \<and>
   processLicenseData_p1 data (processLicenseData_p1 data s) = processLicenseData_p1 data s"
  by (cases "configData s")
     (simp_all add: processLicenseData_p1_def buildGrid_p1_grades buildGrid_p1_ids)

theorem processLicenseData_p1_deterministic_witness:
  "configData exMounted = Some exConfig \<and>
   configData exEdited70_p1 = Some exConfig \<and>
   map (\<lambda>row. getField row ''grade'') (gridData (processLicenseData_p1 exRecords exMounted)) =
     [JStr ''K'', JStr ''1'', JStr ''2'', JStr ''3'', JStr ''4'', JStr ''5'', JStr ''6'',
      JStr ''7'', JStr ''8'', JStr ''Total''] \<and>
   gridData (processLicenseData_p1 exRecords exEdited70_p1) =
     gridData (processLicenseData_p1 exRecords exMounted) \<and>
   processLicenseData_p1 exRecords (processLicenseData_p1 exRecords exMounted) =
     processLicenseData_p1 exRecords exMounted"
proof -
  have a: "configData exMounted = Some exConfig" by code_simp
  have b: "configData exEdited70_p1 = Some exConfig" by code_simp
  from processLicenseData_p1_deterministic [of exMounted exConfig exRecords exEdited70_p1] a b
  show ?thesis by simp
qed

subsection \<open>Zero quantities in the builders that coalesce\<close>

lemma buildDataMap_snoc:
  "buildDataMap (data @ [r]) = setField (recordKey r) (License_Quantity__c r) (buildDataMap data)"
  by (simp add: buildDataMap_def)

lemma buildDataMap_absent:
  "\<forall>r \<in> set data. recordKey r \<noteq> k \<Longrightarrow> getField (buildDataMap data) k = JUndefined"
proof (induction data rule: rev_induct)
  case Nil
  then show ?case by (simp add: buildDataMap_def getField_def)
next
  case (snoc r rs)
  then show ?case by (auto simp: buildDataMap_snoc getField_setField)
qed

lemma buildDataMap_last:
  "\<forall>r' \<in> set after. recordKey r' \<noteq> recordKey r \<Longrightarrow>
   getField (buildDataMap (before @ r # after)) (recordKey r) = License_Quantity__c r"
proof (induction after rule: rev_induct)
  case Nil
  then show ?case by (simp add: buildDataMap_snoc getField_setField)
next
  case (snoc z zs)
  have "before @ r # zs @ [z] = (before @ r # zs) @ [z]" by simp
  with snoc show ?case
    by (simp only: buildDataMap_snoc) (auto simp: getField_setField)
qed

lemma grid_row_nth:
  "i < length gradeLabels \<Longrightarrow>
   (map f (enumerate 0 gradeLabels) @ rest) ! i = f (i, gradeLabels ! i)"
  by (simp add: nth_append nth_enumerate_eq)

lemma cell_lqg:
  assumes "i < length gradeLabels" "y \<in> set (yearsUpTo (maxYears_lqg (configData s)))"
  shows "getField (gridData (processLicenseData_lqg data s) ! i) (yearKey y) =
           js_or (getField (buildDataMap data) (gradeLabels ! i @ ''_'' @ showInt y)) JNull"
  using assms
  by (simp add: processLicenseData_lqg_def Let_def grid_row_nth mainRow_lqg_def
      getField_years del: yearsUpTo.simps)

lemma cell_p0:
  assumes "i < length gradeLabels" "y \<in> set (yearsUpTo (maxYears_p0 (configData s)))"
  shows "getField (gridData (processLicenseData_p0 data s) ! i) (yearKey y) =
           js_or (getField (buildDataMap data) (gradeLabels ! i @ ''_'' @ showInt y)) JNull"
  using assms
  by (simp add: processLicenseData_p0_def Let_def nth_enumerate_eq mainRow_p0_def
      getField_years del: yearsUpTo.simps)

lemma cell_p1:
  assumes "i < length gradeLabels" "y \<in> set (yearsUpTo (contractLength_p1 cfg))"
    and "configData s = Some cfg"
  shows "getField (gridData (processLicenseData_p1 data s) ! i) (yearKey y) =
           (let v = getField (buildDataMap data) (gradeLabels ! i @ ''_'' @ showInt y)
            in if v = JNull \<or> v = JUndefined then JNull else numVal (parseInt v))"
  using assms
  by (simp add: processLicenseData_p1_def buildGrid_p1_def Let_def grid_row_nth mainRow_p1_def
      getField_years del: yearsUpTo.simps)

text \<open>
  Claim C9. In the grid builders that coalesce the lookup with
  \<^verbatim>\<open>dataMap.get(key) || null\<close> (\<^verbatim>\<open>src/unnamed/part_000\<close> and
  \<^verbatim>\<open>licenseQuantityGrid.js\<close>), the cell of grade \<open>i\<close> and year \<open>y\<close> is \<^verbatim>\<open>null\<close> when
  the record the lookup returns for it (the last one for that grade and year) has the
  quantity 0, as it is when no record has that grade and year.
\<close>

theorem zero_quantity_becomes_null:
  "i < length gradeLabels \<and>
   ((data = before @ r # after \<and> (\<forall>r' \<in> set after. recordKey r' \<noteq> recordKey r) \<and>
     Grade_Level__c r = JStr (gradeLabels ! i) \<and> Year__c r = JNum y \<and>
     License_Quantity__c r = JNum 0) \<or>
    (\<forall>r \<in> set data. recordKey r \<noteq> gradeLabels ! i @ ''_'' @ showInt y)) \<longrightarrow>
   (y \<in> set (yearsUpTo (maxYears_lqg (configData s))) \<longrightarrow>
      getField (gridData (processLicenseData_lqg data s) ! i) (yearKey y) = JNull) \<and>
   (y \<in> set (yearsUpTo (maxYears_p0 (configData s))) \<longrightarrow>
      getField (gridData (processLicenseData_p0 data s) ! i) (yearKey y) = JNull)"
proof
  assume h: "i < length gradeLabels \<and>
   ((data = before @ r # after \<and> (\<forall>r' \<in> set after. recordKey r' \<noteq> recordKey r) \<and>
     Grade_Level__c r = JStr (gradeLabels ! i) \<and> Year__c r = JNum y \<and>
     License_Quantity__c r = JNum 0) \<or>
    (\<forall>r \<in> set data. recordKey r \<noteq> gradeLabels ! i @ ''_'' @ showInt y))"
  let ?k = "gradeLabels ! i @ ''_'' @ showInt y"
  have "js_or (getField (buildDataMap data) ?k) JNull = JNull"
  proof -
    from h consider
        (zero) "data = before @ r # after" "\<forall>r' \<in> set after. recordKey r' \<noteq> recordKey r"
               "recordKey r = ?k" "License_Quantity__c r = JNum 0"
      | (absent) "\<forall>r \<in> set data. recordKey r \<noteq> ?k"
      by (auto simp: recordKey_def)
    then show ?thesis
    proof cases
      case zero
      then have "getField (buildDataMap data) ?k = JNum 0"
        using buildDataMap_last [of after r before] by simp
      then show ?thesis by (simp add: js_or_def)
    next
      case absent
      then show ?thesis by (simp add: buildDataMap_absent js_or_def)
    qed
  qed
  with h show "(y \<in> set (yearsUpTo (maxYears_lqg (configData s))) \<longrightarrow>
      getField (gridData (processLicenseData_lqg data s) ! i) (yearKey y) = JNull) \<and>
   (y \<in> set (yearsUpTo (maxYears_p0 (configData s))) \<longrightarrow>
      getField (gridData (processLicenseData_p0 data s) ! i) (yearKey y) = JNull)"
    by (simp add: cell_lqg cell_p0 del: yearsUpTo.simps)
qed

theorem zero_quantity_becomes_null_witness:
  "exRecords = take 2 exRecords @ exRecords ! 2 # [] \<and>
   License_Quantity__c (exRecords ! 2) = JNum 0 \<and>
   Grade_Level__c (exRecords ! 2) = JStr (gradeLabels ! 2) \<and>
   Year__c (exRecords ! 2) = JNum 2 \<and>
   getField (gridData (processLicenseData_lqg exRecords exMounted) ! 2) (yearKey 2) = JNull \<and>
   getField (gridData (processLicenseData_p0 exRecords exMounted) ! 2) (yearKey 2) = JNull"
proof -
  have a: "exRecords = take 2 exRecords @ exRecords ! 2 # []" by code_simp
  have b: "License_Quantity__c (exRecords ! 2) = JNum 0" by code_simp
  have c: "Grade_Level__c (exRecords ! 2) = JStr (gradeLabels ! 2)" by code_simp
  have d: "Year__c (exRecords ! 2) = JNum 2" by code_simp
  have e: "(2::nat) < length gradeLabels" by code_simp
  have f: "2 \<in> set (yearsUpTo (maxYears_lqg (configData exMounted)))" by code_simp
  have g: "2 \<in> set (yearsUpTo (maxYears_p0 (configData exMounted)))" by code_simp
  from zero_quantity_becomes_null
         [of 2 exRecords "take 2 exRecords" "exRecords ! 2" "[]" 2 exMounted] a b c d e f g
  show ?thesis by simp
qed

text \<open>The builder of \<^verbatim>\<open>src/unnamed/part_001\<close> tests the lookup for \<^verbatim>\<open>null\<close> and
  \<^verbatim>\<open>undefined\<close> only, and keeps a quantity of 0.\<close>

lemma zero_quantity_kept_p1:
  assumes "i < length gradeLabels" "y \<in> set (yearsUpTo (contractLength_p1 cfg))"
    and "configData s = Some cfg"
    and "data = before @ r # after" "\<forall>r' \<in> set after. recordKey r' \<noteq> recordKey r"
    and "Grade_Level__c r = JStr (gradeLabels ! i)" "Year__c r = JNum y"
    and "License_Quantity__c r = JNum 0"
  shows "getField (gridData (processLicenseData_p1 data s) ! i) (yearKey y) = JNum 0"
proof -
  from assms(6,7) have "recordKey r = gradeLabels ! i @ ''_'' @ showInt y"
    by (simp add: recordKey_def)
  with assms(4,5,8)
  have "getField (buildDataMap data) (gradeLabels ! i @ ''_'' @ showInt y) = JNum 0"
    using buildDataMap_last [of after r before] by simp
  then show ?thesis
    using cell_p1 [OF assms(1-3), of data] by (simp add: parseInt_JNum)
qed

section \<open>Saving\<close>

lemma showToast_toasts:
  "showToast t m v s = s\<lparr>toasts := toasts s @ [\<lparr>title = t, message = m, variant = v\<rparr>]\<rparr>"
  by (simp add: showToast_def)

text \<open>
  Claim C5. Save with no pending change (or with \<^verbatim>\<open>hasChanges\<close> unset) only
  dispatches the toast "No changes to save." of variant info: every field of the
  component is as before. Save on pending changes whose grid fails
  \<^verbatim>\<open>validateTotals\<close> only dispatches an error toast that lists the validation
  messages: \<^verbatim>\<open>saveLicenseData\<close> is not called, and the pending changes, the grid
  and \<^verbatim>\<open>hasChanges\<close> are as before.
\<close>

theorem handleSave_guards:
  "(\<not> hasChanges s \<or> pendingChanges s = [] \<longrightarrow>
      handleSave_p1 h saved refreshed s =
        s\<lparr>toasts := toasts s @
              [\<lparr>title = ''Info'', message = ''No changes to save.'', variant = ''info''\<rparr>]\<rparr>) \<and>
   (hasChanges s \<and> pendingChanges s \<noteq> [] \<and>
    \<not> isValid (validateTotals_p1 h (configData s) (filter notTotalsRow (gridData s))) \<longrightarrow>
      handleSave_p1 h saved refreshed s =
        s\<lparr>toasts := toasts s @
              [\<lparr>title = ''Error'',
                message = ''Cannot save due to validation errors:'' @ [CHR 0x0A] @
                  joinLines (errors (validateTotals_p1 h (configData s)
                                       (filter notTotalsRow (gridData s)))),
                variant = ''error''\<rparr>]\<rparr> \<and>
      saveCalls (handleSave_p1 h saved refreshed s) = saveCalls s \<and>
      pendingChanges (handleSave_p1 h saved refreshed s) = pendingChanges s \<and>
      gridData (handleSave_p1 h saved refreshed s) = gridData s \<and>
      hasChanges (handleSave_p1 h saved refreshed s))"
  by (simp add: handleSave_p1_def showToast_toasts Let_def)

theorem handleSave_guards_witness:
  "\<not> hasChanges exBuilt_p1 \<and>
   toasts (handleSave_p1 utcHost Fulfilled Fulfilled exBuilt_p1) =
     [\<lparr>title = ''Info'', message = ''No changes to save.'', variant = ''info''\<rparr>] \<and>
   hasChanges exEdited70_p1 \<and> pendingChanges exEdited70_p1 \<noteq> [] \<and>
   errors (validateTotals_p1 utcHost (configData exEdited70_p1)
             (filter notTotalsRow (gridData exEdited70_p1))) =
     [''08/01/2024: Total (120) exceeds maximum license limit (100)''] \<and>
   saveCalls (handleSave_p1 utcHost Fulfilled Fulfilled exEdited70_p1) = saveCalls exEdited70_p1 \<and>
   pendingChanges (handleSave_p1 utcHost Fulfilled Fulfilled exEdited70_p1) =
     pendingChanges exEdited70_p1"
proof -
  have a: "\<not> hasChanges exBuilt_p1" by code_simp
  have a': "toasts exBuilt_p1 = []" by code_simp
  have b: "hasChanges exEdited70_p1" by code_simp
  have c: "pendingChanges exEdited70_p1 \<noteq> []" by code_simp
  have d: "\<not> isValid (validateTotals_p1 utcHost (configData exEdited70_p1)
                        (filter notTotalsRow (gridData exEdited70_p1)))"
    by code_simp
  have e: "errors (validateTotals_p1 utcHost (configData exEdited70_p1)
             (filter notTotalsRow (gridData exEdited70_p1))) =
     [''08/01/2024: Total (120) exceeds maximum license limit (100)'']"
    by code_simp
  from handleSave_guards [of exBuilt_p1 utcHost Fulfilled Fulfilled] a a'
  have "toasts (handleSave_p1 utcHost Fulfilled Fulfilled exBuilt_p1) =
     [\<lparr>title = ''Info'', message = ''No changes to save.'', variant = ''info''\<rparr>]"
    by simp
  moreover from handleSave_guards [of exEdited70_p1 utcHost Fulfilled Fulfilled] b c d
  have "saveCalls (handleSave_p1 utcHost Fulfilled Fulfilled exEdited70_p1) =
          saveCalls exEdited70_p1 \<and>
        pendingChanges (handleSave_p1 utcHost Fulfilled Fulfilled exEdited70_p1) =
          pendingChanges exEdited70_p1"
    by blast
  ultimately show ?thesis using a b c e by blast
qed

text \<open>
  Claim C4. When \<^verbatim>\<open>saveLicenseData\<close> rejects, the component ends as it was before
  the save, but for the error toast and the call it made: the pending changes, the
  draft values (its own and the data table's), the grid and \<^verbatim>\<open>hasChanges\<close> are
  untouched, and \<^verbatim>\<open>isLoading\<close> is false again. The toast's message is
  "Failed to save changes: " followed by the reason: the \<^verbatim>\<open>body.message\<close> of the
  error where there is one, else its \<^verbatim>\<open>message\<close>, else "An unknown error
  occurred.".
\<close>

theorem handleSave_rejected:
  "(hasChanges s \<and> pendingChanges s \<noteq> [] \<and>
    isValid (validateTotals_p1 h (configData s) (filter notTotalsRow (gridData s))) \<longrightarrow>
      handleSave_p1 h (Rejected error) refreshed s =
        s\<lparr>isLoading := False,
           saveCalls := saveCalls s @ [map snd (pendingChanges s)],
           toasts := toasts s @
             [\<lparr>title = ''Error'',
               message = ''Failed to save changes: '' @ saveErrorMessage error,
               variant = ''error''\<rparr>]\<rparr>) \<and>
   (b \<noteq> [] \<longrightarrow>
      saveErrorMessage (Some \<lparr>errorBodyMessage = Some b, errorMessage = m\<rparr>) = b) \<and>
   (t \<noteq> [] \<longrightarrow>
      saveErrorMessage (Some \<lparr>errorBodyMessage = None, errorMessage = Some t\<rparr>) = t \<and>
      saveErrorMessage (Some \<lparr>errorBodyMessage = Some [], errorMessage = Some t\<rparr>) = t) \<and>
   saveErrorMessage (Some \<lparr>errorBodyMessage = None, errorMessage = None\<rparr>) =
     ''An unknown error occurred.'' \<and>
   saveErrorMessage None = ''An unknown error occurred.''"
  by (simp add: handleSave_p1_def saveFailed_def showToast_toasts saveErrorMessage_def
      truthyStr_def Let_def)

theorem handleSave_rejected_witness:
  "hasChanges exEdited45_p1 \<and> pendingChanges exEdited45_p1 \<noteq> [] \<and>
   handleSave_p1 utcHost
       (Rejected (Some \<lparr>errorBodyMessage = Some ''Insufficient access'',
                         errorMessage = Some ''Apex error''\<rparr>))
       Fulfilled exEdited45_p1 =
     exEdited45_p1\<lparr>isLoading := False,
        saveCalls := saveCalls exEdited45_p1 @ [map snd (pendingChanges exEdited45_p1)],
        toasts := toasts exEdited45_p1 @
          [\<lparr>title = ''Error'', message = ''Failed to save changes: Insufficient access'',
            variant = ''error''\<rparr>]\<rparr>"
proof -
  have b: "hasChanges exEdited45_p1" by code_simp
  have c: "pendingChanges exEdited45_p1 \<noteq> []" by code_simp
  have d: "isValid (validateTotals_p1 utcHost (configData exEdited45_p1)
                      (filter notTotalsRow (gridData exEdited45_p1)))"
    by code_simp
  from handleSave_rejected
         [of exEdited45_p1 utcHost
             "Some \<lparr>errorBodyMessage = Some ''Insufficient access'',
                     errorMessage = Some ''Apex error''\<rparr>"
             Fulfilled "''Insufficient access''" "Some ''Apex error''" "''x''"]
       b c d
  show ?thesis by simp
qed

section \<open>Validation\<close>

lemma not_truthy_iff:
  "(\<not> truthy v) = (v = JUndefined \<or> v = JNull \<or> v = JNum 0 \<or> v = JNaN \<or> v = JStr [])"
  by (cases v) simp_all

text \<open>
  Claim C6, as amended. \<^verbatim>\<open>validateTotals\<close> of \<^verbatim>\<open>src/unnamed/part_001\<close>. The
  result is valid with no message when there is no configuration, when the limit is
  not truthy (\<^verbatim>\<open>undefined\<close>, \<^verbatim>\<open>null\<close>, 0, \<^verbatim>\<open>NaN\<close> or the empty string), and
  when a truthy limit does not parse as a number. With a truthy limit that parses to
  \<open>m\<close>, the messages are, in the order of the year columns 1 to N, one for each year
  whose total is greater than \<open>m\<close>: the label of the year's column, the total and the
  limit, in the text "label: Total (total) exceeds maximum license limit (m)"; the
  result is valid exactly when there is no message. The total of a year is the sum
  over the rows of the year's cells, a cell that is \<^verbatim>\<open>null\<close> or \<^verbatim>\<open>undefined\<close>
  counting 0 and a number counting itself. The numbers are those JavaScript holds
  exactly: the limit and, for each year, the sum of the cells' magnitudes are safe
  integers.
\<close>

theorem validateTotals_p1_spec:
  "(cfgOpt = None \<or> (cfgOpt = Some cfg \<and> \<not> truthy (F5_Maximum_License__c cfg)) \<longrightarrow>
      validateTotals_p1 h cfgOpt rows = \<lparr>isValid = True, errors = []\<rparr>) \<and>
   (\<not> truthy v) = (v = JUndefined \<or> v = JNull \<or> v = JNum 0 \<or> v = JNaN \<or> v = JStr []) \<and>
   (cfgOpt = Some cfg \<and> truthy (F5_Maximum_License__c cfg) \<and>
    parseInt (F5_Maximum_License__c cfg) = None \<longrightarrow>
      validateTotals_p1 h cfgOpt rows = \<lparr>isValid = True, errors = []\<rparr>) \<and>
   (cfgOpt = Some cfg \<and> truthy (F5_Maximum_License__c cfg) \<and>
    parseInt (F5_Maximum_License__c cfg) = Some m \<and> safeInteger m \<and>
    (\<forall>y \<in> set (yearsUpTo (contractLength_p1 cfg)).
       safeInteger (\<Sum>row\<leftarrow>rows. \<bar>cellNumber_p1 (getField row (yearKey y))\<bar>)) \<longrightarrow>
      errors (validateTotals_p1 h cfgOpt rows) =
        map (\<lambda>y. toString (label (columns_p1 h cfgOpt ! nat y)) @ '': Total ('' @
                  showInt (yearTotal_p1 rows (yearKey y)) @
                  '') exceeds maximum license limit ('' @ showInt m @ '')'')
            (filter (\<lambda>y. m < yearTotal_p1 rows (yearKey y))
                    (yearsUpTo (contractLength_p1 cfg))) \<and>
      isValid (validateTotals_p1 h cfgOpt rows) =
        (errors (validateTotals_p1 h cfgOpt rows) = []) \<and>
      (\<forall>y \<in> set (yearsUpTo (contractLength_p1 cfg)).
         fieldName (columns_p1 h cfgOpt ! nat y) = yearKey y)) \<and>
   yearTotal_p1 rows k = (\<Sum>row\<leftarrow>rows. cellNumber_p1 (getField row k)) \<and>
   cellNumber_p1 JNull = 0 \<and> cellNumber_p1 JUndefined = 0 \<and>
   (safeInteger n \<longrightarrow> cellNumber_p1 (JNum n) = n)"
proof -
  have none: "cfgOpt = None \<or> (cfgOpt = Some cfg \<and> \<not> truthy (F5_Maximum_License__c cfg)) \<Longrightarrow>
      validateTotals_p1 h cfgOpt rows = \<lparr>isValid = True, errors = []\<rparr>"
    by (auto simp: validateTotals_p1_def)
  have nan: "validateTotals_p1 h cfgOpt rows = \<lparr>isValid = True, errors = []\<rparr>"
    if "cfgOpt = Some cfg" "truthy (F5_Maximum_License__c cfg)"
       "parseInt (F5_Maximum_License__c cfg) = None"
    using that by (simp add: validateTotals_p1_def Let_def exceeds_def)
  have some: "errors (validateTotals_p1 h cfgOpt rows) =
        map (\<lambda>y. toString (label (columns_p1 h cfgOpt ! nat y)) @ '': Total ('' @
                  showInt (yearTotal_p1 rows (yearKey y)) @
                  '') exceeds maximum license limit ('' @ showInt m @ '')'')
            (filter (\<lambda>y. m < yearTotal_p1 rows (yearKey y))
                    (yearsUpTo (contractLength_p1 cfg))) \<and>
      isValid (validateTotals_p1 h cfgOpt rows) =
        (errors (validateTotals_p1 h cfgOpt rows) = [])"
    if c: "cfgOpt = Some cfg" "truthy (F5_Maximum_License__c cfg)"
          "parseInt (F5_Maximum_License__c cfg) = Some m"
  proof -
    let ?ys = "filter (\<lambda>y. m < yearTotal_p1 rows (yearKey y)) (yearsUpTo (contractLength_p1 cfg))"
    have e: "errors (validateTotals_p1 h cfgOpt rows) =
        map (\<lambda>y. limitMessage (getYearLabel_p1 h (Some cfg) y)
                    (JNum (yearTotal_p1 rows (yearKey y))) (JNum m)) ?ys"
      using c by (simp add: validateTotals_p1_def Let_def exceeds_def concat_map_if)
    have "map (\<lambda>y. limitMessage (getYearLabel_p1 h (Some cfg) y)
                    (JNum (yearTotal_p1 rows (yearKey y))) (JNum m)) ?ys =
          map (\<lambda>y. toString (label (columns_p1 h cfgOpt ! nat y)) @ '': Total ('' @
                  showInt (yearTotal_p1 rows (yearKey y)) @
                  '') exceeds maximum license limit ('' @ showInt m @ '')'') ?ys"
    proof (rule map_cong [OF refl])
      fix y assume "y \<in> set ?ys"
      then have y: "y \<in> set (yearsUpTo (contractLength_p1 cfg))" by simp
      show "limitMessage (getYearLabel_p1 h (Some cfg) y)
                (JNum (yearTotal_p1 rows (yearKey y))) (JNum m) =
            toString (label (columns_p1 h cfgOpt ! nat y)) @ '': Total ('' @
                  showInt (yearTotal_p1 rows (yearKey y)) @
                  '') exceeds maximum license limit ('' @ showInt m @ '')''"
        using c(1) by (simp add: limitMessage_def getYearLabel_p1_column [OF y] columns_p1_nth [OF y])
    qed
    with e have e': "errors (validateTotals_p1 h cfgOpt rows) =
        map (\<lambda>y. toString (label (columns_p1 h cfgOpt ! nat y)) @ '': Total ('' @
                  showInt (yearTotal_p1 rows (yearKey y)) @
                  '') exceeds maximum license limit ('' @ showInt m @ '')'') ?ys"
      by simp
    have "isValid (validateTotals_p1 h cfgOpt rows) =
        (errors (validateTotals_p1 h cfgOpt rows) = [])"
      using c by (simp add: validateTotals_p1_def Let_def)
    with e' show ?thesis by blast
  qed
  have cols: "\<forall>y \<in> set (yearsUpTo (contractLength_p1 cfg)).
         fieldName (columns_p1 h cfgOpt ! nat y) = yearKey y" if "cfgOpt = Some cfg"
    using that by (simp add: columns_p1_nth)
  show ?thesis
  proof (intro conjI impI)
    show "(\<not> truthy v) =
        (v = JUndefined \<or> v = JNull \<or> v = JNum 0 \<or> v = JNaN \<or> v = JStr [])"
      by (rule not_truthy_iff)
    show "yearTotal_p1 rows k = (\<Sum>row\<leftarrow>rows. cellNumber_p1 (getField row k))"
      by (rule yearTotal_p1_sum)
    show "cellNumber_p1 JNull = 0" "cellNumber_p1 JUndefined = 0" "cellNumber_p1 (JNum n) = n"
      by (rule cellNumber_p1_simps)+
  next
    assume "cfgOpt = None \<or> (cfgOpt = Some cfg \<and> \<not> truthy (F5_Maximum_License__c cfg))"
    then show "validateTotals_p1 h cfgOpt rows = \<lparr>isValid = True, errors = []\<rparr>"
      by (rule none)
  next
    assume "cfgOpt = Some cfg \<and> truthy (F5_Maximum_License__c cfg) \<and>
      parseInt (F5_Maximum_License__c cfg) = None"
    then show "validateTotals_p1 h cfgOpt rows = \<lparr>isValid = True, errors = []\<rparr>"
      using nan by simp
  next
    assume a: "cfgOpt = Some cfg \<and> truthy (F5_Maximum_License__c cfg) \<and>
      parseInt (F5_Maximum_License__c cfg) = Some m \<and> safeInteger m \<and>
      (\<forall>y \<in> set (yearsUpTo (contractLength_p1 cfg)).
         safeInteger (\<Sum>row\<leftarrow>rows. \<bar>cellNumber_p1 (getField row (yearKey y))\<bar>))"
    then have s: "errors (validateTotals_p1 h cfgOpt rows) =
        map (\<lambda>y. toString (label (columns_p1 h cfgOpt ! nat y)) @ '': Total ('' @
                  showInt (yearTotal_p1 rows (yearKey y)) @
                  '') exceeds maximum license limit ('' @ showInt m @ '')'')
            (filter (\<lambda>y. m < yearTotal_p1 rows (yearKey y))
                    (yearsUpTo (contractLength_p1 cfg))) \<and>
      isValid (validateTotals_p1 h cfgOpt rows) =
        (errors (validateTotals_p1 h cfgOpt rows) = [])"
      by (intro some) simp_all
    from s show "errors (validateTotals_p1 h cfgOpt rows) =
        map (\<lambda>y. toString (label (columns_p1 h cfgOpt ! nat y)) @ '': Total ('' @
                  showInt (yearTotal_p1 rows (yearKey y)) @
                  '') exceeds maximum license limit ('' @ showInt m @ '')'')
            (filter (\<lambda>y. m < yearTotal_p1 rows (yearKey y))
                    (yearsUpTo (contractLength_p1 cfg)))"
      by (rule conjunct1)
    from s show "isValid (validateTotals_p1 h cfgOpt rows) =
        (errors (validateTotals_p1 h cfgOpt rows) = [])"
      by (rule conjunct2)
    from a show "\<forall>y \<in> set (yearsUpTo (contractLength_p1 cfg)).
         fieldName (columns_p1 h cfgOpt ! nat y) = yearKey y"
      by (intro cols) simp
  qed
qed

theorem validateTotals_p1_spec_witness:
  "validateTotals_p1 utcHost None (gridData exBuilt_p1) = \<lparr>isValid = True, errors = []\<rparr> \<and>
   validateTotals_p1 utcHost (Some exNoLimit) (gridData exBuilt_p1) =
     \<lparr>isValid = True, errors = []\<rparr> \<and>
   validateTotals_p1 utcHost (Some exWordLimit) (gridData exBuilt_p1) =
     \<lparr>isValid = True, errors = []\<rparr> \<and>
   errors (validateTotals_p1 utcHost (Some exConfig)
             (filter notTotalsRow (gridData exEdited70_p1))) =
     [''08/01/2024: Total (120) exceeds maximum license limit (100)''] \<and>
   \<not> isValid (validateTotals_p1 utcHost (Some exConfig)
                 (filter notTotalsRow (gridData exEdited70_p1))) \<and>
   cellNumber_p1 (JNum 70) = 70"
proof -
  let ?rows = "filter notTotalsRow (gridData exEdited70_p1)"
  note spec = validateTotals_p1_spec
  have t: "\<not> truthy (F5_Maximum_License__c exNoLimit)" by code_simp
  have a: "validateTotals_p1 utcHost None (gridData exBuilt_p1) = \<lparr>isValid = True, errors = []\<rparr>"
    using spec [where cfgOpt = None and h = utcHost and rows = "gridData exBuilt_p1",
        THEN conjunct1]
    by simp
  have b: "validateTotals_p1 utcHost (Some exNoLimit) (gridData exBuilt_p1) =
     \<lparr>isValid = True, errors = []\<rparr>"
    using spec [where cfgOpt = "Some exNoLimit" and cfg = exNoLimit and h = utcHost
        and rows = "gridData exBuilt_p1", THEN conjunct1] t
    by simp
  have w1: "truthy (F5_Maximum_License__c exWordLimit)" by code_simp
  have w2: "parseInt (F5_Maximum_License__c exWordLimit) = None" by code_simp
  have w: "validateTotals_p1 utcHost (Some exWordLimit) (gridData exBuilt_p1) =
     \<lparr>isValid = True, errors = []\<rparr>"
    using spec [where cfgOpt = "Some exWordLimit" and cfg = exWordLimit and h = utcHost
        and rows = "gridData exBuilt_p1", THEN conjunct2, THEN conjunct2, THEN conjunct1] w1 w2
    by simp
  have c1: "truthy (F5_Maximum_License__c exConfig)" by code_simp
  have c2: "parseInt (F5_Maximum_License__c exConfig) = Some 100" by code_simp
  have c3: "map (\<lambda>y. toString (label (columns_p1 utcHost (Some exConfig) ! nat y)) @ '': Total ('' @
                  showInt (yearTotal_p1 ?rows (yearKey y)) @
                  '') exceeds maximum license limit ('' @ showInt 100 @ '')'')
            (filter (\<lambda>y. 100 < yearTotal_p1 ?rows (yearKey y))
                    (yearsUpTo (contractLength_p1 exConfig))) =
        [''08/01/2024: Total (120) exceeds maximum license limit (100)'']"
    by code_simp
  have c4: "safeInteger 100" by (simp add: safeInteger_def)
  have c5: "list_all (\<lambda>y. safeInteger
               (\<Sum>row\<leftarrow>?rows. \<bar>cellNumber_p1 (getField row (yearKey y))\<bar>))
             (yearsUpTo (contractLength_p1 exConfig))"
    by code_simp
  from c5 have c6: "\<forall>y \<in> set (yearsUpTo (contractLength_p1 exConfig)).
       safeInteger (\<Sum>row\<leftarrow>?rows. \<bar>cellNumber_p1 (getField row (yearKey y))\<bar>)"
    by (simp only: list_all_iff)
  from spec [where cfgOpt = "Some exConfig" and cfg = exConfig and h = utcHost
        and rows = ?rows and m = 100, THEN conjunct2, THEN conjunct2, THEN conjunct2,
        THEN conjunct1] c1 c2 c3 c4 c6
  have d: "errors (validateTotals_p1 utcHost (Some exConfig) ?rows) =
          [''08/01/2024: Total (120) exceeds maximum license limit (100)''] \<and>
        isValid (validateTotals_p1 utcHost (Some exConfig) ?rows) =
          (errors (validateTotals_p1 utcHost (Some exConfig) ?rows) = [])"
    by simp
  have s: "safeInteger 70" by (simp add: safeInteger_def)
  have e: "cellNumber_p1 (JNum 70) = 70"
    using spec [where n = 70, THEN conjunct2, THEN conjunct2, THEN conjunct2, THEN conjunct2,
        THEN conjunct2, THEN conjunct2, THEN conjunct2] s
    by simp
  from a b w d e show ?thesis by simp
qed

text \<open>
  Where claim C6 fails as it was stated: here a limit is configured, it is 0, the
  total of year 1 is 120, and there is no message.
\<close>

theorem limit_zero_no_message_counterexample:
  "F5_Maximum_License__c exLimit0 = JNum 0 \<and>
   yearTotal_p1 (filter notTotalsRow (gridData exEdited70_limit0)) (yearKey 1) = 120 \<and>
   validateTotals_p1 utcHost (Some exLimit0) (filter notTotalsRow (gridData exEdited70_limit0)) =
     \<lparr>isValid = True, errors = []\<rparr>"
  by code_simp

text \<open>
  Claim C10. A configured limit of 0 is not truthy, so \<^verbatim>\<open>validateTotals\<close> (of
  \<^verbatim>\<open>src/unnamed/part_001\<close> and of \<^verbatim>\<open>licenseQuantityGrid.js\<close>) takes it for no
  limit: the result is valid with no message whatever the rows hold, and
  \<^verbatim>\<open>handleSave\<close> on pending changes goes on to call \<^verbatim>\<open>saveLicenseData\<close> with them.
\<close>

theorem limit_zero_disables_validation:
  "F5_Maximum_License__c cfg = JNum 0 \<longrightarrow>
     validateTotals_p1 h (Some cfg) rows = \<lparr>isValid = True, errors = []\<rparr> \<and>
     validateTotals_lqg h (Some cfg) rows = Inr \<lparr>isValid = True, errors = []\<rparr> \<and>
     (configData s = Some cfg \<and> hasChanges s \<and> pendingChanges s \<noteq> [] \<longrightarrow>
        saveCalls (handleSave_p1 h saved refreshed s) =
          saveCalls s @ [map snd (pendingChanges s)])"
proof
  assume z: "F5_Maximum_License__c cfg = JNum 0"
  then have p1: "validateTotals_p1 h (Some cfg) rows' = \<lparr>isValid = True, errors = []\<rparr>" for rows'
    by (simp add: validateTotals_p1_def)
  from z have lqg: "validateTotals_lqg h (Some cfg) rows = Inr \<lparr>isValid = True, errors = []\<rparr>"
    by (simp add: validateTotals_lqg_def maxLicense_lqg_def)
  have "saveCalls (handleSave_p1 h saved refreshed s) = saveCalls s @ [map snd (pendingChanges s)]"
    if "configData s = Some cfg" "hasChanges s" "pendingChanges s \<noteq> []"
    using that p1
    by (cases saved; cases refreshed)
       (simp_all add: handleSave_p1_def Let_def saveFailed_def showToast_toasts
          split: option.splits)
  with p1 lqg show "validateTotals_p1 h (Some cfg) rows = \<lparr>isValid = True, errors = []\<rparr> \<and>
     validateTotals_lqg h (Some cfg) rows = Inr \<lparr>isValid = True, errors = []\<rparr> \<and>
     (configData s = Some cfg \<and> hasChanges s \<and> pendingChanges s \<noteq> [] \<longrightarrow>
        saveCalls (handleSave_p1 h saved refreshed s) =
          saveCalls s @ [map snd (pendingChanges s)])"
    by blast
qed

theorem limit_zero_disables_validation_witness:
  "F5_Maximum_License__c exLimit0 = JNum 0 \<and>
   configData exEdited70_limit0 = Some exLimit0 \<and> hasChanges exEdited70_limit0 \<and>
   yearTotal_p1 (filter notTotalsRow (gridData exEdited70_limit0)) ''year1'' = 120 \<and>
   validateTotals_p1 utcHost (Some exLimit0) (filter notTotalsRow (gridData exEdited70_limit0)) =
     \<lparr>isValid = True, errors = []\<rparr> \<and>
   validateTotals_lqg utcHost (Some exLimit0) (filter notTotalsRow (gridData exEdited70_limit0)) =
     Inr \<lparr>isValid = True, errors = []\<rparr> \<and>
   saveCalls (handleSave_p1 utcHost Fulfilled Fulfilled exEdited70_limit0) =
     [[\<lparr>grade = JStr ''K'', year = ''1'', quantity = JNum 70\<rparr>]]"
proof -
  have z: "F5_Maximum_License__c exLimit0 = JNum 0" by code_simp
  have c: "configData exEdited70_limit0 = Some exLimit0" by code_simp
  have d: "hasChanges exEdited70_limit0" by code_simp
  have p: "pendingChanges exEdited70_limit0 =
             [(''K_1'', \<lparr>grade = JStr ''K'', year = ''1'', quantity = JNum 70\<rparr>)]"
    by code_simp
  have n: "saveCalls exEdited70_limit0 = []" by code_simp
  have t: "yearTotal_p1 (filter notTotalsRow (gridData exEdited70_limit0)) ''year1'' = 120"
    by code_simp
  from limit_zero_disables_validation
         [of exLimit0 utcHost "filter notTotalsRow (gridData exEdited70_limit0)"
             exEdited70_limit0 Fulfilled Fulfilled]
       z c d p n t
  show ?thesis by simp
qed

section \<open>Date labels\<close>



subsection \<open>Digit strings read and printed back\<close>








subsection \<open>The later columns of licenseQuantityGrid.js\<close>

text \<open>
  In \<^verbatim>\<open>licenseQuantityGrid.js\<close> the column \<open>i\<close> after the first is labelled
  "Year i-1" when the renewal date is absent (line 249), and a renewal date the
  runtime's \<^verbatim>\<open>Date\<close> takes for invalid raises a RangeError out of the \<^verbatim>\<open>columns\<close>
  getter (\<^verbatim>\<open>toISOString\<close>, with no \<^verbatim>\<open>try\<close> around it). \<^verbatim>\<open>src/unnamed/part_001\<close>
  labels the column "Year i" and catches the exception.
\<close>

lemma later_columns_lqg:
  "(i \<noteq> 1 \<and> \<not> truthy (F5_Initial_Renewal_date__c cfg) \<longrightarrow>
      dateLabel_lqg h cfg i = Inr (JStr (''Year '' @ showInt (i - 1)))) \<and>
   (i \<noteq> 1 \<and> truthy (F5_Initial_Renewal_date__c cfg) \<and>
    newDate h (F5_Initial_Renewal_date__c cfg) = None \<longrightarrow>
      dateLabel_lqg h cfg i = Inl RangeError)"
  by (simp add: dateLabel_lqg_def addYearsToDateString_lqg_def)

subsection \<open>The formatter and the labels\<close>




section \<open>Merging an edit batch\<close>

subsection \<open>The totals row after a build and after an edit, in src/unnamed/part_001\<close>

lemma calculateTotals_p1_year:
  "y \<in> set (yearsUpTo mx) \<Longrightarrow>
   getField (calculateTotals_p1 rows mx) (yearKey y) = JNum (yearTotal_p1 rows (yearKey y))"
  by (simp add: calculateTotals_p1_def getField_years del: yearsUpTo.simps)

lemma calculateTotals_p1_is_totals: "\<not> notTotalsRow (calculateTotals_p1 rows mx)"
  by (simp add: notTotalsRow_def strictEq_def calculateTotals_p1_id_grade)

lemma mainRow_p1_not_totals: "notTotalsRow (mainRow_p1 dm mx ig)"
  by (cases ig) (simp add: notTotalsRow_def strictEq_def mainRow_p1_id_grade)

lemma keep_id:
  "getField (foldl (\<lambda>updatedRow k. if k \<noteq> ''id'' then setField k (f k) updatedRow
                                       else updatedRow) row ks) ''id'' = getField row ''id''"
  by (induction ks rule: rev_induct) (simp_all add: getField_setField)

lemma applyDrafts_p1_id: "getField (applyDrafts_p1 ds row) ''id'' = getField row ''id''"
  by (simp add: applyDrafts_p1_def keep_id split: option.splits)

lemma applyDrafts_p1_not_totals: "notTotalsRow (applyDrafts_p1 ds row) = notTotalsRow row"
  by (simp add: notTotalsRow_def applyDrafts_p1_id)

lemma filter_map_applyDrafts:
  "filter notTotalsRow (map (applyDrafts_p1 ds) (filter notTotalsRow rows)) =
     map (applyDrafts_p1 ds) (filter notTotalsRow rows)"
  by (induction rows) (simp_all add: applyDrafts_p1_not_totals)

lemma gridData_edit_p1:
  "filter notTotalsRow drafts \<noteq> [] \<Longrightarrow>
   gridData (handleDraftValueChange_p1 h drafts s) =
     map (applyDrafts_p1 (filter notTotalsRow drafts)) (filter notTotalsRow (gridData s)) @
     [calculateTotals_p1
        (map (applyDrafts_p1 (filter notTotalsRow drafts)) (filter notTotalsRow (gridData s)))
        (editMaxYears_p1 (configData s))]"
  by (simp add: handleDraftValueChange_p1_def Let_def showToast_toasts)

lemma parseInt_falsy:
  "\<not> truthy v \<Longrightarrow> parseInt v = None \<or> parseInt v = Some 0"
  by (cases v)
     (simp_all add: parseInt_JNum, simp_all add: parseInt_def parseIntStr_def isWhiteSpace_def
        isDigit_def digitChars_def)

lemma edit_years_cover:
  assumes "y \<in> set (yearsUpTo (contractLength_p1 cfg))"
  shows "y \<in> set (yearsUpTo (editMaxYears_p1 (Some cfg)))"
proof (cases "truthy (F5_Contract_Length__c cfg)")
  case True
  with assms show ?thesis
    by (cases "parseInt (F5_Contract_Length__c cfg)")
       (auto simp: contractLength_p1_def editMaxYears_p1_def)
next
  case False
  with assms have "1 \<le> y \<and> y \<le> 7" by (simp add: contractLength_p1_def)
  with parseInt_falsy [OF False] show ?thesis
    by (auto simp: editMaxYears_p1_def)
qed

text \<open>
  In \<^verbatim>\<open>src/unnamed/part_001\<close> every grid the component publishes, by a build or by
  an edit batch that is not empty, ends with the totals row, and for each year
  column the totals row holds the sum of the other rows' cells, \<^verbatim>\<open>null\<close> counting 0.
\<close>

lemma totals_invariant_p1:
  assumes "configData s = Some cfg" "y \<in> set (yearsUpTo (contractLength_p1 cfg))"
    and "g = gridData (processLicenseData_p1 data s) \<or>
         (filter notTotalsRow drafts \<noteq> [] \<and> g = gridData (handleDraftValueChange_p1 h drafts s))"
  shows "getField (last g) (yearKey y) =
           JNum (\<Sum>row\<leftarrow>filter notTotalsRow g. cellNumber_p1 (getField row (yearKey y)))"
    and "\<not> notTotalsRow (last g)"
proof -
  from assms(3) obtain rows mx where g: "g = rows @ [calculateTotals_p1 rows mx]"
    and rows: "filter notTotalsRow rows = rows" and mx: "y \<in> set (yearsUpTo mx)"
  proof
    assume b: "g = gridData (processLicenseData_p1 data s)"
    let ?rows = "map (mainRow_p1 (buildDataMap data) (contractLength_p1 cfg))
                   (enumerate 0 gradeLabels)"
    from b assms(1) have "g = ?rows @ [calculateTotals_p1 ?rows (contractLength_p1 cfg)]"
      by (simp add: processLicenseData_p1_def buildGrid_p1_def Let_def)
    moreover have "filter notTotalsRow ?rows = ?rows"
      by (simp add: mainRow_p1_not_totals)
    ultimately show ?thesis using that assms(2) by blast
  next
    assume e: "filter notTotalsRow drafts \<noteq> [] \<and>
               g = gridData (handleDraftValueChange_p1 h drafts s)"
    let ?rows = "map (applyDrafts_p1 (filter notTotalsRow drafts))
                   (filter notTotalsRow (gridData s))"
    from e have "g = ?rows @ [calculateTotals_p1 ?rows (editMaxYears_p1 (configData s))]"
      by (simp add: gridData_edit_p1)
    moreover have "filter notTotalsRow ?rows = ?rows" by (rule filter_map_applyDrafts)
    moreover have "y \<in> set (yearsUpTo (editMaxYears_p1 (configData s)))"
      using assms(1,2) edit_years_cover by simp
    ultimately show ?thesis using that by blast
  qed
  from g rows have f: "filter notTotalsRow g = rows"
    by (simp add: calculateTotals_p1_is_totals)
  from g have l: "last g = calculateTotals_p1 rows mx" by simp
  from mx show "getField (last g) (yearKey y) =
           JNum (\<Sum>row\<leftarrow>filter notTotalsRow g. cellNumber_p1 (getField row (yearKey y)))"
    unfolding f l by (simp add: calculateTotals_p1_year yearTotal_p1_sum del: yearsUpTo.simps)
  show "\<not> notTotalsRow (last g)" unfolding l by (rule calculateTotals_p1_is_totals)
qed

subsection \<open>The two coercions of src/unnamed/part_001\<close>

text \<open>The value left in the grid and the value recorded for saving are the same,
  but for a negative number: the grid gets 0 and the pending change \<^verbatim>\<open>null\<close>.\<close>

lemma gridQuantity_pendingQuantity:
  "(case parseInt v of
      Some n \<Rightarrow> if n < 0 then gridQuantity_p1 v = JNum 0 \<and> pendingQuantity v = JNull
                else gridQuantity_p1 v = pendingQuantity v
    | None \<Rightarrow> gridQuantity_p1 v = JNull \<and> pendingQuantity v = JNull)"
proof (cases "v = JNull \<or> v = JUndefined \<or> v = JStr []")
  case True
  then have "parseInt v = None"
    by (auto simp: parseInt_def parseIntStr_def isWhiteSpace_def isDigit_def digitChars_def)
  with True show ?thesis by (auto simp: gridQuantity_p1_def pendingQuantity_def)
next
  case False
  then show ?thesis
    by (auto simp: gridQuantity_p1_def pendingQuantity_def split: option.splits)
qed

subsection \<open>Edits the components take differently from the specification\<close>

text \<open>
  Claim C1, on \<^verbatim>\<open>licenseQuantityGrid.js\<close>. The data table hands the edited value
  over as a string. The handler merges the string into the row as it is (lines 368
  to 371), and \<^verbatim>\<open>calculateTotals\<close> adds the cells with \<^verbatim>\<open>+\<close> (line 273), which
  concatenates from the first string on: after grade K, year 1 is edited to "70",
  beside the 50 of grade 1, the totals row holds the string "070500000000" for year 1,
  not 120.
\<close>

theorem totals_concatenated_lqg:
  "\<not> isl exEdited70_lqg \<and>
   map (\<lambda>row. getField row ''year1'') (gridData (projr exEdited70_lqg)) =
     [JStr ''70'', JNum 50, JNull, JNull, JNull, JNull, JNull, JNull, JNull,
      JStr ''070500000000'']"
  by code_simp

text \<open>
  Claim C2, on \<^verbatim>\<open>src/unnamed/part_001\<close>. Grade K, year 1 edited to "-5": the grid
  row gets 0 (\<^verbatim>\<open>Math.max(0, intValue)\<close>, line 247), the pending change gets
  \<^verbatim>\<open>null\<close> (lines 282 to 284).
\<close>

theorem negative_edit_p1:
  "getField (gridData exEditedMinus5_p1 ! 0) ''year1'' = JNum 0 \<and>
   pendingChanges exEditedMinus5_p1 =
     [(''K_1'', \<lparr>grade = JStr ''K'', year = ''1'', quantity = JNull\<rparr>)]"
  by code_simp

text \<open>
  Claim C3. In \<^verbatim>\<open>src/unnamed/part_001\<close>, grade 1, year 2 edited to "-3" reads back
  as 0 from the grid, with the pending change \<^verbatim>\<open>null\<close>. In
  \<^verbatim>\<open>licenseQuantityGrid.js\<close>, the same cell edited to "abc" reads back as the
  string "abc", with the pending change \<^verbatim>\<open>null\<close>.
\<close>

theorem edit_read_back:
  "getField (gridData exEditedMinus3_p1 ! 1) ''year2'' = JNum 0 \<and>
   pendingChanges exEditedMinus3_p1 =
     [(''1_2'', \<lparr>grade = JStr ''1'', year = ''2'', quantity = JNull\<rparr>)] \<and>
   \<not> isl exEditedWord_lqg \<and>
   getField (gridData (projr exEditedWord_lqg) ! 1) ''year2'' = JStr ''abc'' \<and>
   pendingChanges (projr exEditedWord_lqg) =
     [(''1_2'', \<lparr>grade = JStr ''1'', year = ''2'', quantity = JNull\<rparr>)]"
  by code_simp

end
